theory Spec2Isabelle
  imports Complex_Main "HOL-Library.AList" "HOL-Library.Char_ord" "HOL-Library.List_Lexorder"
    "HOL-Library.Multiset"
begin

unbundle bit_operations_syntax

section \<open>Strings and numbers of the host language\<close>

text \<open>
  JavaScript numbers are modelled as \<^typ>\<open>real\<close>: IEEE rounding, \<open>NaN\<close> and the sign of
  zero are left out. Strings are \<^typ>\<open>string\<close>; a character is one code unit and the
  functions below act on the ASCII range, which is where hex digits, the prefix
  separators and the white space removed by \<open>trim\<close> live.
\<close>

datatype rgb = RGB real real real

text \<open>White space removed by \<open>String.prototype.trim\<close> and skipped by \<open>parseInt\<close>.\<close>

definition isSpace :: "char \<Rightarrow> bool" where
  "isSpace c = (c \<in> set [CHR 0x09, CHR 0x0A, CHR 0x0B, CHR 0x0C, CHR 0x0D, CHR '' ''])"

definition trim :: "string \<Rightarrow> string" where
  "trim s = rev (dropWhile isSpace (rev (dropWhile isSpace s)))"

text \<open>\<open>hex.replace(/^#/, "")\<close>: one leading \<open>#\<close> is removed.\<close>

definition stripHash :: "string \<Rightarrow> string" where
  "stripHash s = (case s of [] \<Rightarrow> [] | c # t \<Rightarrow> if c = CHR ''#'' then t else s)"

definition toLowerChar :: "char \<Rightarrow> char" where
  "toLowerChar c = (case map_of (zip ''ABCDEFGHIJKLMNOPQRSTUVWXYZ'' ''abcdefghijklmnopqrstuvwxyz'') c of
                      Some l \<Rightarrow> l | None \<Rightarrow> c)"

definition toLowerCase :: "string \<Rightarrow> string" where
  "toLowerCase s = map toLowerChar s"

definition startsWith :: "string \<Rightarrow> string \<Rightarrow> bool" where
  "startsWith s p = (take (length p) s = p)"

text \<open>\<open>Math.round\<close>: the nearest integer, halves towards \<open>+\<infinity>\<close>.\<close>

definition mathRound :: "real \<Rightarrow> int" where
  "mathRound x = \<lfloor>x + 1 / 2\<rfloor>"

section \<open>HEX and RGB\<close>

text \<open>The value of a digit in radix 16, as \<open>parseInt\<close> reads it (both cases).\<close>

definition hexVal :: "char \<Rightarrow> nat option" where
  "hexVal c = map_of (zip ''0123456789abcdefABCDEF''
                 [0, 1, 2, 3, 4, 5, 6, 7, 8, 9, 10, 11, 12, 13, 14, 15, 10, 11, 12, 13, 14, 15]) c"

text \<open>
  \<open>parseInt(s, 16)\<close>: leading white space is skipped, a sign is read, a \<open>0x\<close> or
  \<open>0X\<close> prefix is dropped, and the longest run of hex digits that follows is the
  value; what comes after the run is ignored. \<open>None\<close> is \<open>NaN\<close> (no digit at all).
\<close>

definition parseInt16 :: "string \<Rightarrow> int option" where
  "parseInt16 str =
    (let s0 = dropWhile isSpace str;
         neg = (s0 \<noteq> [] \<and> hd s0 = CHR ''-'');
         s1 = (if s0 \<noteq> [] \<and> (hd s0 = CHR ''+'' \<or> hd s0 = CHR ''-'') then tl s0 else s0);
         s2 = (if take 2 s1 = ''0x'' \<or> take 2 s1 = ''0X'' then drop 2 s1 else s1);
         z = takeWhile (\<lambda>c. hexVal c \<noteq> None) s2
     in if z = [] then None
        else Some ((if neg then - 1 else 1) * int (foldl (\<lambda>acc c. 16 * acc + the (hexVal c)) 0 z)))"

text \<open>The bitwise operators work on the 32-bit two's complement value of their operand.\<close>

definition toInt32 :: "int \<Rightarrow> int" where
  "toInt32 n = (let m = n mod 2 ^ 32 in if 2 ^ 31 \<le> m then m - 2 ^ 32 else m)"

text \<open>\<open>((n >> k) & 0xff) / 255\<close>\<close>

definition channel :: "int \<Rightarrow> nat \<Rightarrow> real" where
  "channel n k = real_of_int (drop_bit k (toInt32 n) AND 0xff) / 255"

definition parseHexToRgb :: "string \<Rightarrow> rgb option" where
  "parseHexToRgb hex =
    (let s = trim (stripHash hex) in
     if length s \<noteq> 6 then None
     else case parseInt16 s of
            None \<Rightarrow> None
          | Some n \<Rightarrow> Some (RGB (channel n 16) (channel n 8) (channel n 0)))"

definition to255 :: "real \<Rightarrow> nat" where
  "to255 x = nat (mathRound (max 0 (min 1 x) * 255))"

definition hexDigit :: "nat \<Rightarrow> char" where
  "hexDigit d = ''0123456789abcdef'' ! d"

text \<open>\<open>n.toString(16)\<close> for a non-negative integer.\<close>

fun toString16 :: "nat \<Rightarrow> string" where
  "toString16 n = (if n < 16 then [hexDigit n] else toString16 (n div 16) @ [hexDigit (n mod 16)])"

declare toString16.simps [simp del]

text \<open>\<open>s.padStart(2, "0")\<close>\<close>

definition padStart2 :: "string \<Rightarrow> string" where
  "padStart2 s = replicate (2 - length s) CHR ''0'' @ s"

definition rgbToHexStr :: "real \<Rightarrow> real \<Rightarrow> real \<Rightarrow> string" where
  "rgbToHexStr r g b = concat (map (\<lambda>n. padStart2 (toString16 n)) [to255 r, to255 g, to255 b])"

text \<open>The round trip: \<open>rgbToHexStr\<close> applied to what \<open>parseHexToRgb\<close> returns.\<close>

definition hexOfParsed :: "string \<Rightarrow> string option" where
  "hexOfParsed h = (case parseHexToRgb h of None \<Rightarrow> None | Some (RGB r g b) \<Rightarrow> Some (rgbToHexStr r g b))"

section \<open>Exact-match keys\<close>

text \<open>\<open>a ?? 1\<close>: an absent alpha counts as 1.\<close>

definition orOne :: "real option \<Rightarrow> real" where
  "orOne a = (case a of None \<Rightarrow> 1 | Some x \<Rightarrow> x)"

text \<open>
  \<open>Math.round((a ?? 1) * 100) / 100\<close>, computed here in exact arithmetic. The code
  computes in doubles, where the product and the quotient are each rounded to the
  nearest double; the two computations can differ only when \<open>a * 100\<close> lies within
  such a rounding of a half, and what is proved about \<open>roundAlpha\<close> below is
  evaluation at alphas far from those points.
\<close>

definition roundAlpha :: "real option \<Rightarrow> real" where
  "roundAlpha a = real_of_int (mathRound (orOne a * 100)) / 100"

text \<open>
  The keys are template strings, \<open>`${r},${g},${b}`\<close> and \<open>`${r},${g},${b},${alpha}`\<close>.
  They are kept here as the tuple of the numbers that are printed: the decimal
  rendering of a number determines it, and no rendering contains the separating comma,
  so two such strings are equal exactly when the tuples are.
\<close>

type_synonym exactKey = "real \<times> real \<times> real \<times> real"

definition rgbKey :: "rgb \<Rightarrow> real \<times> real \<times> real" where
  "rgbKey c = (case c of RGB r g b \<Rightarrow> (r, g, b))"

definition rgbOpacityKey :: "real \<Rightarrow> real \<Rightarrow> real \<Rightarrow> real option \<Rightarrow> exactKey" where
  "rgbOpacityKey r g b a = (r, g, b, roundAlpha (Some (orOne a)))"

section \<open>Candidate ranking\<close>

fun colorDistance :: "rgb \<Rightarrow> rgb \<Rightarrow> real" where
  "colorDistance (RGB ar ag ab) (RGB br bg bb) = sqrt ((ar - br)\<^sup>2 + (ag - bg)\<^sup>2 + (ab - bb)\<^sup>2)"

text \<open>
  An element of the variable list, \<open>{variableId, variableName, r, g, b}\<close>; the three
  channels are the field \<open>entryColor\<close>.
\<close>

record variableListEntry =
  variableId :: string
  variableName :: string
  entryColor :: rgb

text \<open>\<open>{...v, hex, distance}\<close>\<close>

record withDistance = variableListEntry +
  hex :: string
  distance :: real

text \<open>What is returned to the caller: \<open>{variableId, variableName, hex}\<close>.\<close>

datatype candidate = Candidate string string string

definition addDistance :: "rgb \<Rightarrow> variableListEntry \<Rightarrow> withDistance" where
  "addDistance targetRgb v =
     (case entryColor v of RGB r g b \<Rightarrow>
        \<lparr>variableId = variableId v, variableName = variableName v, entryColor = entryColor v,
         hex = rgbToHexStr r g b, distance = colorDistance targetRgb (RGB r g b)\<rparr>)"

text \<open>
  The comparator handed to \<open>sort\<close>. \<open>localeCompare\<close> is the host's collation of
  strings and is a parameter \<open>lc\<close> here: negative, zero or positive.
\<close>

definition compareCandidates :: "(string \<Rightarrow> string \<Rightarrow> int) \<Rightarrow> withDistance \<Rightarrow> withDistance \<Rightarrow> real" where
  "compareCandidates lc x y =
     (if \<bar>distance x - distance y\<bar> < 1 / 10 ^ 6 then real_of_int (lc (variableName x) (variableName y))
      else distance x - distance y)"

text \<open>
  \<open>Array.prototype.sort\<close> with a comparator is stable, and for a comparator that is
  a consistent order on the array its result is determined: that result is what
  \<open>sortBy\<close> computes, by stable insertion (an element stays in front of the ones
  it does not compare greater than). For a comparator that is not a consistent order
  the language leaves the result to the engine, and \<open>sortBy\<close> does not stand for
  it; nothing below takes the value of \<open>sortBy\<close> on such an input for the result
  of the code.
\<close>

fun insertBy :: "('a \<Rightarrow> 'a \<Rightarrow> real) \<Rightarrow> 'a \<Rightarrow> 'a list \<Rightarrow> 'a list" where
  "insertBy cmp x [] = [x]"
| "insertBy cmp x (y # ys) = (if cmp x y \<le> 0 then x # y # ys else y # insertBy cmp x ys)"

definition sortBy :: "('a \<Rightarrow> 'a \<Rightarrow> real) \<Rightarrow> 'a list \<Rightarrow> 'a list" where
  "sortBy cmp xs = foldr (insertBy cmp) xs []"

text \<open>\<open>xs.slice(0, e)\<close>: a negative end counts from the end of the array.\<close>

definition slice0 :: "'a list \<Rightarrow> int \<Rightarrow> 'a list" where
  "slice0 xs e = (if e < 0 then take (nat (int (length xs) + e)) xs else take (nat e) xs)"

text \<open>The array \<open>withDistance\<close> after it has been sorted.\<close>

definition rankedCandidates :: "(string \<Rightarrow> string \<Rightarrow> int) \<Rightarrow> variableListEntry list \<Rightarrow> rgb \<Rightarrow> withDistance list" where
  "rankedCandidates lc list targetRgb = sortBy (compareCandidates lc) (map (addDistance targetRgb) list)"

definition toCandidate :: "withDistance \<Rightarrow> candidate" where
  "toCandidate w = Candidate (variableId w) (variableName w) (hex w)"

definition computeCandidates ::
  "(string \<Rightarrow> string \<Rightarrow> int) \<Rightarrow> variableListEntry list \<Rightarrow> rgb \<Rightarrow> int \<Rightarrow> candidate list" where
  "computeCandidates lc list targetRgb limit =
     map toCandidate (slice0 (rankedCandidates lc list targetRgb) limit)"

text \<open>One collation for the examples: the order of the code units.\<close>

definition codeUnitCompare :: "string \<Rightarrow> string \<Rightarrow> int" where
  "codeUnitCompare s t = (if s < t then - 1 else if s = t then 0 else 1)"

text \<open>
  The order that the specification states for the result: ascending by distance, and
  among candidates whose distances are less than \<open>1e-6\<close> apart, ascending by name.
\<close>

definition claimedOrder :: "(string \<Rightarrow> string \<Rightarrow> int) \<Rightarrow> withDistance \<Rightarrow> withDistance \<Rightarrow> bool" where
  "claimedOrder lc x y =
     (if \<bar>distance x - distance y\<bar> < 1 / 10 ^ 6 then lc (variableName x) (variableName y) \<le> 0
      else distance x < distance y)"


text \<open>Two candidates tie when their distances differ by less than \<open>1e-6\<close>.\<close>

definition tie :: "withDistance \<Rightarrow> withDistance \<Rightarrow> bool" where
  "tie x y = (\<bar>distance x - distance y\<bar> < 1 / 10 ^ 6)"

text \<open>
  Conditions under which the comparator is a consistent order: the collation is a
  total preorder, and tying is transitive on the candidates at hand.
\<close>

definition collationOrder :: "(string \<Rightarrow> string \<Rightarrow> int) \<Rightarrow> bool" where
  "collationOrder lc =
     ((\<forall>s t. lc s t \<le> 0 \<or> lc t s \<le> 0) \<and> (\<forall>s t u. lc s t \<le> 0 \<longrightarrow> lc t u \<le> 0 \<longrightarrow> lc s u \<le> 0))"

definition tiesTransitive :: "withDistance list \<Rightarrow> bool" where
  "tiesTransitive ws = (\<forall>x \<in> set ws. \<forall>y \<in> set ws. \<forall>z \<in> set ws. tie x y \<longrightarrow> tie y z \<longrightarrow> tie x z)"

text \<open>
  Three candidates, named by their names: at the distances \<open>0\<close>, \<open>6e-7\<close> and
  \<open>12e-7\<close> from black.
\<close>

definition candC :: variableListEntry where
  "candC = \<lparr>variableId = ''v1'', variableName = ''c'', entryColor = RGB 0 0 0\<rparr>"

definition candB :: variableListEntry where
  "candB = \<lparr>variableId = ''v2'', variableName = ''b'', entryColor = RGB (6 / 10 ^ 7) 0 0\<rparr>"

definition candA :: variableListEntry where
  "candA = \<lparr>variableId = ''v3'', variableName = ''a'', entryColor = RGB (12 / 10 ^ 7) 0 0\<rparr>"

section \<open>Messages\<close>

text \<open>
  The texts of the messages are Korean; they are given as their UTF-8 bytes. In the
  order below they say: variable not found; node not found; no COLOR variable of the
  collection matches the filter (Color, Black); the collection cannot be found or has no
  COLOR variable in the mode. The last two follow the quoted collection name.
\<close>

definition msgVariableNotFound :: string where
  "msgVariableNotFound =
    [CHR 0xEB, CHR 0xB3, CHR 0x80, CHR 0xEC, CHR 0x88, CHR 0x98, CHR 0xEB, CHR 0xA5, CHR 0xBC,
     CHR 0x20, CHR 0xEC, CHR 0xB0, CHR 0xBE, CHR 0xEC, CHR 0x9D, CHR 0x84, CHR 0x20, CHR 0xEC,
     CHR 0x88, CHR 0x98, CHR 0x20, CHR 0xEC, CHR 0x97, CHR 0x86, CHR 0xEC, CHR 0x9D, CHR 0x8C]"

definition msgNodeNotFound :: string where
  "msgNodeNotFound =
    [CHR 0xEB, CHR 0x85, CHR 0xB8, CHR 0xEB, CHR 0x93, CHR 0x9C, CHR 0xEB, CHR 0xA5, CHR 0xBC,
     CHR 0x20, CHR 0xEC, CHR 0xB0, CHR 0xBE, CHR 0xEC, CHR 0x9D, CHR 0x84, CHR 0x20, CHR 0xEC,
     CHR 0x88, CHR 0x98, CHR 0x20, CHR 0xEC, CHR 0x97, CHR 0x86, CHR 0xEC, CHR 0x9D, CHR 0x8C]"

definition msgNoFilteredVariables :: string where
  "msgNoFilteredVariables =
    [CHR 0x20, CHR 0xEC, CHR 0xBB, CHR 0xAC, CHR 0xEB, CHR 0xA0, CHR 0x89, CHR 0xEC, CHR 0x85,
     CHR 0x98, CHR 0xEC, CHR 0x97, CHR 0x90, CHR 0xEC, CHR 0x84, CHR 0x9C, CHR 0x20, CHR 0xED,
     CHR 0x95, CHR 0x84, CHR 0xED, CHR 0x84, CHR 0xB0, CHR 0x28, CHR 0x43, CHR 0x6F, CHR 0x6C,
     CHR 0x6F, CHR 0x72, CHR 0x2C, CHR 0x20, CHR 0x42, CHR 0x6C, CHR 0x61, CHR 0x63, CHR 0x6B,
     CHR 0x29, CHR 0xEC, CHR 0x97, CHR 0x90, CHR 0x20, CHR 0xEB, CHR 0xA7, CHR 0x9E, CHR 0xEB,
     CHR 0x8A, CHR 0x94, CHR 0x20, CHR 0x43, CHR 0x4F, CHR 0x4C, CHR 0x4F, CHR 0x52, CHR 0x20,
     CHR 0xEB, CHR 0xB3, CHR 0x80, CHR 0xEC, CHR 0x88, CHR 0x98, CHR 0xEA, CHR 0xB0, CHR 0x80,
     CHR 0x20, CHR 0xEC, CHR 0x97, CHR 0x86, CHR 0xEC, CHR 0x8A, CHR 0xB5, CHR 0xEB, CHR 0x8B,
     CHR 0x88, CHR 0xEB, CHR 0x8B, CHR 0xA4, CHR 0x2E]"

definition msgNoCollectionOrVariables :: string where
  "msgNoCollectionOrVariables =
    [CHR 0x20, CHR 0xEC, CHR 0xBB, CHR 0xAC, CHR 0xEB, CHR 0xA0, CHR 0x89, CHR 0xEC, CHR 0x85,
     CHR 0x98, CHR 0xEC, CHR 0x9D, CHR 0x84, CHR 0x20, CHR 0xEC, CHR 0xB0, CHR 0xBE, CHR 0xEC,
     CHR 0x9D, CHR 0x84, CHR 0x20, CHR 0xEC, CHR 0x88, CHR 0x98, CHR 0x20, CHR 0xEC, CHR 0x97,
     CHR 0x86, CHR 0xEA, CHR 0xB1, CHR 0xB0, CHR 0xEB, CHR 0x82, CHR 0x98, CHR 0x20, CHR 0xED,
     CHR 0x95, CHR 0xB4, CHR 0xEB, CHR 0x8B, CHR 0xB9, CHR 0x20, CHR 0xEB, CHR 0xAA, CHR 0xA8,
     CHR 0xEB, CHR 0x93, CHR 0x9C, CHR 0xEC, CHR 0x97, CHR 0x90, CHR 0x20, CHR 0x43, CHR 0x4F,
     CHR 0x4C, CHR 0x4F, CHR 0x52, CHR 0x20, CHR 0xEB, CHR 0xB3, CHR 0x80, CHR 0xEC, CHR 0x88,
     CHR 0x98, CHR 0xEA, CHR 0xB0, CHR 0x80, CHR 0x20, CHR 0xEC, CHR 0x97, CHR 0x86, CHR 0xEC,
     CHR 0x8A, CHR 0xB5, CHR 0xEB, CHR 0x8B, CHR 0x88, CHR 0xEB, CHR 0x8B, CHR 0xA4, CHR 0x2E]"

section \<open>Elements and their paints\<close>

text \<open>
  A paint is a solid paint, with its colour, its \<open>opacity\<close> (which may be absent) and
  the variable bound to its colour if there is one, or a paint of another type
  (gradient, image).
\<close>

datatype paint = SolidPaint rgb "real option" "string option" | OtherPaint

text \<open>
  The property \<open>fills\<close> or \<open>strokes\<close> of a node: not a property of the node at all,
  \<open>figma.mixed\<close>, or an array of paints.
\<close>

datatype paintsProperty = Absent | Mixed | Paints "paint list"

text \<open>
  A node: \<open>id\<close>, \<open>name\<close>, \<open>fills\<close>, \<open>strokes\<close> and \<open>children\<close> (empty for a node
  without the property).
\<close>

datatype sceneNode = SceneNode string string paintsProperty paintsProperty "sceneNode list"

fun nodeIdOf :: "sceneNode \<Rightarrow> string" where
  "nodeIdOf (SceneNode i n f s c) = i"

fun nodeNameOf :: "sceneNode \<Rightarrow> string" where
  "nodeNameOf (SceneNode i n f s c) = n"

fun fillsOf :: "sceneNode \<Rightarrow> paintsProperty" where
  "fillsOf (SceneNode i n f s c) = f"

fun strokesOf :: "sceneNode \<Rightarrow> paintsProperty" where
  "strokesOf (SceneNode i n f s c) = s"

datatype paintProperty = Fills | Strokes

definition propertyName :: "paintProperty \<Rightarrow> string" where
  "propertyName p = (case p of Fills \<Rightarrow> ''fills'' | Strokes \<Rightarrow> ''strokes'')"

definition paintsOf :: "sceneNode \<Rightarrow> paintProperty \<Rightarrow> paintsProperty" where
  "paintsOf node p = (case p of Fills \<Rightarrow> fillsOf node | Strokes \<Rightarrow> strokesOf node)"

text \<open>The assignment \<open>node.fills = paints\<close> or \<open>node.strokes = paints\<close>.\<close>

fun setPaints :: "sceneNode \<Rightarrow> paintProperty \<Rightarrow> paint list \<Rightarrow> sceneNode" where
  "setPaints (SceneNode i n f s c) Fills ps = SceneNode i n (Paints ps) s c"
| "setPaints (SceneNode i n f s c) Strokes ps = SceneNode i n f (Paints ps) c"

text \<open>
  \<open>node.boundVariables?.[property]?.[index]\<close>. The element store keeps, for each
  paint of the array, the variable bound to its colour; \<open>boundVariables\<close> of the node
  shows it at the index of the paint.
\<close>

definition boundVariableAt :: "sceneNode \<Rightarrow> paintProperty \<Rightarrow> nat \<Rightarrow> string option" where
  "boundVariableAt node p i =
     (case paintsOf node p of
        Paints ps \<Rightarrow>
          if i < length ps then (case ps ! i of SolidPaint c op bv \<Rightarrow> bv | OtherPaint \<Rightarrow> None)
          else None
      | _ \<Rightarrow> None)"

definition isSolidUnbound :: "sceneNode \<Rightarrow> paintProperty \<Rightarrow> nat \<Rightarrow> bool" where
  "isSolidUnbound node p i = (boundVariableAt node p i = None)"

definition hasFillStroke :: "sceneNode \<Rightarrow> bool" where
  "hasFillStroke node = (fillsOf node \<noteq> Absent \<and> fillsOf node \<noteq> Mixed)"

fun collectNodes :: "sceneNode \<Rightarrow> sceneNode list" where
  "collectNodes (SceneNode i n f s c) =
     (if hasFillStroke (SceneNode i n f s c) \<and> (case f of Paints ps \<Rightarrow> True | _ \<Rightarrow> False)
      then [SceneNode i n f s c] else [])
     @ concat (map collectNodes c)"

section \<open>The catalog: collections, modes and variables\<close>

text \<open>
  A call into the host either returns or throws; \<open>Inl\<close> carries the message of what
  was thrown.
\<close>

type_synonym 'a result = "string + 'a"

text \<open>
  The value of a variable under a mode: a colour \<open>{r, g, b, a?}\<close>, or something
  without a field \<open>r\<close> (an alias, a number, a string).
\<close>

datatype variableValue = ColorValue real real real "real option" | OtherValue

datatype resolvedType = COLOR | BOOLEAN | FLOAT | STRING

text \<open>A variable: its \<open>id\<close>, its \<open>name\<close>, its type and \<open>valuesByMode\<close>.\<close>

record variable =
  varId :: string
  varName :: string
  resolvedType :: resolvedType
  valuesByMode :: "(string \<times> variableValue) list"

record collectionMode =
  modeId :: string
  modeName :: string

text \<open>A local collection: its \<open>name\<close>, \<open>modes\<close> and \<open>variableIds\<close>.\<close>

record variableCollection =
  collName :: string
  modes :: "collectionMode list"
  variableIds :: "string list"

text \<open>A collection of a team library: its \<open>name\<close> and \<open>key\<close>.\<close>

record libraryVariableCollection =
  libName :: string
  libKey :: string

datatype variableCollectionSource =
  Local variableCollection | Library libraryVariableCollection

text \<open>
  The host's variable store: \<open>figma.variables.getLocalVariableCollectionsAsync\<close>,
  \<open>figma.teamLibrary.getAvailableLibraryVariableCollectionsAsync\<close> (\<open>None\<close> when the
  function does not exist), \<open>figma.variables.getVariableByIdAsync\<close> and
  \<open>figma.variables.setBoundVariableForPaint\<close> with the field \<open>"color"\<close>, which
  returns the new paint or throws.
\<close>

record host =
  getLocalVariableCollections :: "variableCollection list result"
  teamLibrary :: "libraryVariableCollection list result option"
  getVariableById :: "string \<Rightarrow> variable option"
  setBoundVariableForPaint :: "paint \<Rightarrow> variable \<Rightarrow> paint result"

definition GROUP_FILTER_PREFIXES :: "string list" where
  "GROUP_FILTER_PREFIXES = [''Color/'', ''Black/'']"

definition matchesPrefix :: "string \<Rightarrow> string \<Rightarrow> bool" where
  "matchesPrefix variableName' prefix = startsWith (trim variableName') prefix"

definition matchesGroupFilter :: "string \<Rightarrow> string list \<Rightarrow> bool" where
  "matchesGroupFilter variableName' prefixes = list_ex (\<lambda>p. startsWith (trim variableName') p) prefixes"

definition getLibraryVariableCollectionsSafe :: "host \<Rightarrow> libraryVariableCollection list" where
  "getLibraryVariableCollectionsSafe h =
     (case teamLibrary h of None \<Rightarrow> [] | Some (Inl e) \<Rightarrow> [] | Some (Inr cs) \<Rightarrow> cs)"

text \<open>
  The lookup by name. The message it posts to the user interface when nothing is found
  is not part of what it returns and is left out.
\<close>

definition findVariableCollectionByName :: "host \<Rightarrow> string \<Rightarrow> variableCollectionSource option result" where
  "findVariableCollectionByName h name =
     (let nameLower = toLowerCase (trim name) in
      if nameLower = [] then Inr None
      else case getLocalVariableCollections h of
             Inl e \<Rightarrow> Inl e
           | Inr localCollections \<Rightarrow>
               (let libraryCollections = getLibraryVariableCollectionsSafe h in
                case find (\<lambda>c. toLowerCase (trim (collName c)) = nameLower) localCollections of
                  Some fromLocal \<Rightarrow> Inr (Some (Local fromLocal))
                | None \<Rightarrow>
                    (case find (\<lambda>c. toLowerCase (trim (libName c)) = nameLower) libraryCollections of
                       Some fromLibrary \<Rightarrow> Inr (Some (Library fromLibrary))
                     | None \<Rightarrow> Inr None)))"

text \<open>The loop of \<open>getAvailableCollectionNames\<close>: the names so far and the set \<open>seen\<close>.\<close>

definition addLibraryName :: "string list \<times> string list \<Rightarrow> string \<Rightarrow> string list \<times> string list" where
  "addLibraryName st name =
     (case st of (localNames, seen) \<Rightarrow>
        if toLowerCase (trim name) \<in> set seen then (localNames, seen)
        else (localNames @ [name], seen @ [toLowerCase (trim name)]))"

definition getAvailableCollectionNames :: "host \<Rightarrow> string list result" where
  "getAvailableCollectionNames h =
     (case getLocalVariableCollections h of
        Inl e \<Rightarrow> Inl e
      | Inr localCollections \<Rightarrow>
          (let libraryCollections = getLibraryVariableCollectionsSafe h;
               localNames = map collName localCollections;
               libraryNames = map libName libraryCollections;
               seen = map (\<lambda>n. toLowerCase (trim n)) localNames
           in Inr (fst (foldl addLibraryName (localNames, seen) libraryNames))))"

text \<open>
  The mode to read, as both catalog functions compute it: the mode whose name equals
  the requested one up to case, else the first mode, else none.
\<close>

definition resolveModeId :: "variableCollection \<Rightarrow> string \<Rightarrow> string option" where
  "resolveModeId collection mode =
     (case find (\<lambda>m. toLowerCase (modeName m) = toLowerCase mode) (modes collection) of
        Some modeEntry \<Rightarrow> Some (modeId modeEntry)
      | None \<Rightarrow> (case modes collection of [] \<Rightarrow> None | m # _ \<Rightarrow> Some (modeId m)))"

text \<open>The exact map: from a key to \<open>{variable, name}\<close>, in the order of insertion.\<close>

type_synonym colorMap = "(exactKey \<times> (variable \<times> string)) list"

record collectionColorMapOptions =
  useGroupFilters :: "bool option"
  groupPrefixes :: "string list option"

text \<open>The body of the loop without a filter: \<open>map.set(key, ...)\<close>.\<close>

definition setEntry :: "host \<Rightarrow> string \<Rightarrow> colorMap \<Rightarrow> string \<Rightarrow> colorMap" where
  "setEntry h mid m vid =
     (case getVariableById h vid of
        None \<Rightarrow> m
      | Some v \<Rightarrow>
          if resolvedType v \<noteq> COLOR then m
          else (case map_of (valuesByMode v) mid of
                  Some (ColorValue r g b a) \<Rightarrow>
                    AList.update (rgbOpacityKey r g b (Some (orOne a))) (v, varName v) m
                | _ \<Rightarrow> m))"

text \<open>The body of the loop for one prefix: \<open>if (!map.has(key)) map.set(key, ...)\<close>.\<close>

definition setEntryIfAbsent :: "host \<Rightarrow> string \<Rightarrow> string \<Rightarrow> colorMap \<Rightarrow> string \<Rightarrow> colorMap" where
  "setEntryIfAbsent h mid prefix m vid =
     (case getVariableById h vid of
        None \<Rightarrow> m
      | Some v \<Rightarrow>
          if resolvedType v \<noteq> COLOR then m
          else if \<not> matchesPrefix (varName v) prefix then m
          else (case map_of (valuesByMode v) mid of
                  Some (ColorValue r g b a) \<Rightarrow>
                    (let key = rgbOpacityKey r g b (Some (orOne a)) in
                     if map_of m key = None then AList.update key (v, varName v) m else m)
                | _ \<Rightarrow> m))"

definition getCollectionColorMap ::
  "host \<Rightarrow> string \<Rightarrow> string \<Rightarrow> collectionColorMapOptions \<Rightarrow> colorMap result" where
  "getCollectionColorMap h collectionName mode options =
     (let useGroupFilters' = (case useGroupFilters options of None \<Rightarrow> False | Some u \<Rightarrow> u);
          groupPrefixes' = (case groupPrefixes options of None \<Rightarrow> GROUP_FILTER_PREFIXES | Some ps \<Rightarrow> ps)
      in case findVariableCollectionByName h collectionName of
           Inl e \<Rightarrow> Inl e
         | Inr None \<Rightarrow> Inr []
         | Inr (Some (Library _)) \<Rightarrow> Inr []
         | Inr (Some (Local collection)) \<Rightarrow>
             (case resolveModeId collection mode of
                None \<Rightarrow> Inr []
              | Some mid \<Rightarrow>
                  if \<not> useGroupFilters' then Inr (foldl (setEntry h mid) [] (variableIds collection))
                  else
                    (let order = (if 2 \<le> length groupPrefixes'
                                  then [groupPrefixes' ! 0, groupPrefixes' ! 1] else groupPrefixes')
                     in Inr (foldl (\<lambda>m prefix. foldl (setEntryIfAbsent h mid prefix) m (variableIds collection))
                               [] order))))"

section \<open>The variable list and its cache\<close>

text \<open>\<open>variableListCacheMap\<close>: from a key string to a list, in the order of insertion.\<close>

type_synonym variableListCache = "(string \<times> variableListEntry list) list"

text \<open>\<open>xs.join(",")\<close>\<close>

fun joinComma :: "string list \<Rightarrow> string" where
  "joinComma [] = []"
| "joinComma [x] = x"
| "joinComma (x # y # ys) = x @ '','' @ joinComma (y # ys)"

definition boolString :: "bool \<Rightarrow> string" where
  "boolString v = (if v then ''true'' else ''false'')"

text \<open>\<open>`${collectionName}|${mode}|${useGroupFilters}|${prefixKey}`\<close>\<close>

definition cacheKey :: "string \<Rightarrow> string \<Rightarrow> bool \<Rightarrow> string list option \<Rightarrow> string" where
  "cacheKey collectionName mode useGroupFilters' groupPrefixFilter =
     (let prefixKey = (case groupPrefixFilter of
                         Some ps \<Rightarrow> joinComma ps
                       | None \<Rightarrow> if useGroupFilters' then ''all'' else ''none'')
      in collectionName @ ''|'' @ mode @ ''|'' @ boolString useGroupFilters' @ ''|'' @ prefixKey)"

text \<open>The body of the loop that fills the list: \<open>list.push(...)\<close>.\<close>

definition pushEntry ::
  "host \<Rightarrow> string \<Rightarrow> string list option \<Rightarrow> variableListEntry list \<Rightarrow> string \<Rightarrow> variableListEntry list" where
  "pushEntry h mid prefixesToMatch list vid =
     (case getVariableById h vid of
        None \<Rightarrow> list
      | Some v \<Rightarrow>
          if resolvedType v \<noteq> COLOR then list
          else if (case prefixesToMatch of
                     Some ps \<Rightarrow> \<not> list_ex (\<lambda>p. matchesPrefix (varName v) p) ps
                   | None \<Rightarrow> False) then list
          else (case map_of (valuesByMode v) mid of
                  Some (ColorValue r g b a) \<Rightarrow>
                    list @ [\<lparr>variableId = varId v, variableName = varName v, entryColor = RGB r g b\<rparr>]
                | _ \<Rightarrow> list))"

text \<open>
  The cache is state: the function takes it and returns it, changed only when a list
  has been computed from a local collection.
\<close>

definition getCollectionVariableList ::
  "host \<Rightarrow> variableListCache \<Rightarrow> string \<Rightarrow> string \<Rightarrow> bool \<Rightarrow> string list option
     \<Rightarrow> variableListEntry list result \<times> variableListCache" where
  "getCollectionVariableList h cache collectionName mode useGroupFilters' groupPrefixFilter =
     (let key = cacheKey collectionName mode useGroupFilters' groupPrefixFilter in
      case map_of cache key of
        Some cached \<Rightarrow> (Inr cached, cache)
      | None \<Rightarrow>
          (case findVariableCollectionByName h collectionName of
             Inl e \<Rightarrow> (Inl e, cache)
           | Inr None \<Rightarrow> (Inr [], cache)
           | Inr (Some (Library _)) \<Rightarrow> (Inr [], cache)
           | Inr (Some (Local collection)) \<Rightarrow>
               (case resolveModeId collection mode of
                  None \<Rightarrow> (Inr [], cache)
                | Some mid \<Rightarrow>
                    (let prefixesToMatch = (case groupPrefixFilter of
                                              Some ps \<Rightarrow> Some ps
                                            | None \<Rightarrow> if useGroupFilters' then Some GROUP_FILTER_PREFIXES
                                                       else None);
                         list = foldl (pushEntry h mid prefixesToMatch) [] (variableIds collection)
                     in (Inr list, AList.update key list cache)))))"

section \<open>The command \<open>getCandidatesForHex\<close>\<close>

text \<open>The message posted back: \<open>{type: "candidatesResult", hex, candidates, error?}\<close>.\<close>

record candidatesResult =
  resultHex :: string
  candidates :: "candidate list"
  resultError :: "string option"

text \<open>
  The handler's branch for \<open>getCandidatesForHex\<close>, with the fields of the message as
  arguments: everything runs inside \<open>try\<close>, and what is thrown becomes the \<open>error\<close>
  of the answer.
\<close>

definition getCandidatesForHex ::
  "(string \<Rightarrow> string \<Rightarrow> int) \<Rightarrow> host \<Rightarrow> variableListCache \<Rightarrow> string \<Rightarrow> string \<Rightarrow> string \<Rightarrow> bool
     \<Rightarrow> candidatesResult \<times> variableListCache" where
  "getCandidatesForHex lc h cache msgHex msgCollectionName msgMode msgUseGroupFilters =
     (let hexNorm = trim (stripHash msgHex) in
      case parseHexToRgb hexNorm of
        None \<Rightarrow> (\<lparr>resultHex = hexNorm, candidates = [], resultError = Some ''Invalid HEX''\<rparr>, cache)
      | Some targetRgb \<Rightarrow>
          (case getCollectionVariableList h cache msgCollectionName msgMode msgUseGroupFilters None of
             (Inl e, cache') \<Rightarrow> (\<lparr>resultHex = msgHex, candidates = [], resultError = Some e\<rparr>, cache')
           | (Inr list, cache') \<Rightarrow>
               (let withDistance = map (addDistance targetRgb) list;
                    sorted = sortBy (compareCandidates lc) withDistance;
                    top = map toCandidate (slice0 sorted 12)
                in (\<lparr>resultHex = hexNorm, candidates = top, resultError = None\<rparr>, cache'))))"

section \<open>Scanning\<close>

record scanItem =
  nodeId :: string
  nodeName :: string
  property :: paintProperty
  index :: nat
  currentColor :: rgb
  opacity :: real
  matchVariableId :: "string option"
  matchVariableName :: "string option"

text \<open>One pass of the loop over an array of paints, at index \<open>i\<close>.\<close>

definition scanPaint :: "sceneNode \<Rightarrow> paintProperty \<Rightarrow> paint list \<Rightarrow> colorMap \<Rightarrow> nat \<Rightarrow> scanItem list" where
  "scanPaint node p paints colorMap' i =
     (case paints ! i of
        OtherPaint \<Rightarrow> []
      | SolidPaint c op bv \<Rightarrow>
          if \<not> isSolidUnbound node p i then []
          else (case c of RGB r g b \<Rightarrow>
                  (let key = rgbOpacityKey r g b (Some (orOne op));
                       match = map_of colorMap' key
                   in [\<lparr>nodeId = nodeIdOf node, nodeName = nodeNameOf node, property = p, index = i,
                         currentColor = c, opacity = orOne op,
                         matchVariableId = map_option (\<lambda>e. varId (fst e)) match,
                         matchVariableName = map_option snd match\<rparr>])))"

definition scanPaints :: "sceneNode \<Rightarrow> paintProperty \<Rightarrow> colorMap \<Rightarrow> scanItem list" where
  "scanPaints node p colorMap' =
     (case paintsOf node p of
        Paints paints \<Rightarrow> concat (map (scanPaint node p paints colorMap') [0..<length paints])
      | _ \<Rightarrow> [])"

definition scanNodes :: "sceneNode list \<Rightarrow> colorMap \<Rightarrow> scanItem list" where
  "scanNodes nodes colorMap' =
     concat (map (\<lambda>node. scanPaints node Fills colorMap' @ scanPaints node Strokes colorMap') nodes)"

text \<open>\<open>{hex, tokenName, variableId}\<close>\<close>

datatype matchedColorItem = MatchedColorItem string string string

record scanResult =
  items :: "scanItem list"
  matchedColors :: "matchedColorItem list"
  noMatchColors :: "string list"
  totalScanned :: nat
  error :: "string option"

text \<open>
  The page and the selection of the host. Reading the elements is a call into the
  host and may throw.
\<close>

record document =
  selection :: "sceneNode list result"
  currentPage :: sceneNode

text \<open>The loop that fills \<open>matchedByHex\<close> and \<open>noMatchHexSet\<close>.\<close>

definition summarize ::
  "(string \<times> string \<times> string) list \<times> string list \<Rightarrow> scanItem \<Rightarrow> (string \<times> string \<times> string) list \<times> string list" where
  "summarize st item =
     (case st of (matchedByHex, noMatchHexSet) \<Rightarrow>
        (case currentColor item of RGB r g b \<Rightarrow>
           (let hex' = rgbToHexStr r g b in
            case (matchVariableId item, matchVariableName item) of
              (Some vid, Some vname) \<Rightarrow>
                (if map_of matchedByHex hex' = None then (matchedByHex @ [(hex', (vname, vid))], noMatchHexSet)
                 else (matchedByHex, noMatchHexSet))
            | _ \<Rightarrow> (matchedByHex, if hex' \<in> set noMatchHexSet then noMatchHexSet else noMatchHexSet @ [hex']))))"

definition emptyScan :: "string \<Rightarrow> scanResult" where
  "emptyScan e = \<lparr>items = [], matchedColors = [], noMatchColors = [], totalScanned = 0, error = Some e\<rparr>"

definition emptyCatalogMessage :: "string \<Rightarrow> bool option \<Rightarrow> string" where
  "emptyCatalogMessage collectionName useGroupFilters' =
     (if useGroupFilters' = Some True
      then [CHR 0x22] @ collectionName @ [CHR 0x22] @ msgNoFilteredVariables
      else [CHR 0x22] @ collectionName @ [CHR 0x22] @ msgNoCollectionOrVariables)"

text \<open>A text occurs in a string: it starts the string or occurs in the rest of it.\<close>

fun containsString :: "string \<Rightarrow> string \<Rightarrow> bool" where
  "containsString [] t = (t = [])"
| "containsString (c # s) t = (startsWith (c # s) t \<or> containsString s t)"

text \<open>The body of \<open>try\<close> in \<open>runScan\<close>.\<close>

definition runScanBody :: "host \<Rightarrow> document \<Rightarrow> string \<Rightarrow> string \<Rightarrow> bool option \<Rightarrow> scanResult result" where
  "runScanBody h doc collectionName mode useGroupFilters' =
     (case getCollectionColorMap h collectionName mode
             \<lparr>useGroupFilters = Some (case useGroupFilters' of None \<Rightarrow> False | Some u \<Rightarrow> u),
              groupPrefixes = None\<rparr> of
        Inl e \<Rightarrow> Inl e
      | Inr colorMap' \<Rightarrow>
          if length colorMap' = 0 then Inr (emptyScan (emptyCatalogMessage collectionName useGroupFilters'))
          else (case selection doc of
                  Inl e \<Rightarrow> Inl e
                | Inr selection' \<Rightarrow>
                    (let nodes = (if 0 < length selection' then concat (map collectNodes selection')
                                  else collectNodes (currentPage doc));
                         items' = scanNodes nodes colorMap';
                         summary = foldl summarize ([], []) items'
                     in Inr \<lparr>items = items',
                             matchedColors = map (\<lambda>(hex', (vname, vid)). MatchedColorItem hex' vname vid) (fst summary),
                             noMatchColors = sort (snd summary),
                             totalScanned = length items',
                             error = None\<rparr>)))"

text \<open>\<open>runScan\<close>: what the body throws is caught and returned as the \<open>error\<close>.\<close>

definition runScan :: "host \<Rightarrow> document \<Rightarrow> string \<Rightarrow> string \<Rightarrow> bool option \<Rightarrow> scanResult" where
  "runScan h doc collectionName mode useGroupFilters' =
     (case runScanBody h doc collectionName mode useGroupFilters' of
        Inl e \<Rightarrow> emptyScan e
      | Inr res \<Rightarrow> res)"

section \<open>Applying bindings\<close>

text \<open>The element store by id: \<open>figma.getNodeByIdAsync\<close>, and the state that binding changes.\<close>

type_synonym nodeStore = "string \<Rightarrow> sceneNode option"

record applyResult =
  appliedCount :: nat
  skippedCount :: nat
  failedCount :: nat
  failedReasons :: "string list"

text \<open>What happens to one item: the three ways in which the loop moves on.\<close>

datatype outcome = Applied | Skipped | Failed string

definition noResult :: applyResult where
  "noResult = \<lparr>appliedCount = 0, skippedCount = 0, failedCount = 0, failedReasons = []\<rparr>"

definition countOutcome :: "applyResult \<Rightarrow> outcome \<Rightarrow> applyResult" where
  "countOutcome res oc =
     (case oc of
        Applied \<Rightarrow> res\<lparr>appliedCount := appliedCount res + 1\<rparr>
      | Skipped \<Rightarrow> res\<lparr>skippedCount := skippedCount res + 1\<rparr>
      | Failed reason \<Rightarrow> res\<lparr>failedCount := failedCount res + 1,
                               failedReasons := failedReasons res @ [reason]\<rparr>)"

text \<open>The decimal digits of an index, as a template string prints it.\<close>

fun showNat :: "nat \<Rightarrow> string" where
  "showNat n = (if n < 10 then [''0123456789'' ! n] else showNat (n div 10) @ [''0123456789'' ! (n mod 10)])"

declare showNat.simps [simp del]

text \<open>
  The body of the loop of \<open>applyBindingsToItems\<close> for an item whose
  \<open>matchVariableId\<close> is \<open>vid\<close>. The branches for \<open>fills\<close> and \<open>strokes\<close> differ
  only in the property they read and write.
\<close>

definition applyBindingItem :: "host \<Rightarrow> nodeStore \<Rightarrow> scanItem \<Rightarrow> string \<Rightarrow> outcome \<times> nodeStore" where
  "applyBindingItem h store item vid =
     (case getVariableById h vid of
        None \<Rightarrow> (Failed (''['' @ nodeName item @ ''] '' @ msgVariableNotFound @ '': '' @ vid), store)
      | Some v \<Rightarrow>
          (case store (nodeId item) of
             None \<Rightarrow> (Failed (''['' @ nodeName item @ ''] '' @ msgNodeNotFound @ '': '' @ nodeId item), store)
           | Some node \<Rightarrow>
               (case paintsOf node (property item) of
                  Paints paints \<Rightarrow>
                    if boundVariableAt node (property item) (index item) \<noteq> None then (Skipped, store)
                    else if length paints \<le> index item then (Skipped, store)
                    else (case paints ! index item of
                            OtherPaint \<Rightarrow> (Skipped, store)
                          | SolidPaint c op bv \<Rightarrow>
                              (case setBoundVariableForPaint h (paints ! index item) v of
                                 Inl e \<Rightarrow>
                                   (Failed (''['' @ nodeName item @ ''] '' @ propertyName (property item)
                                            @ ''['' @ showNat (index item) @ '']: '' @ e), store)
                               | Inr newPaint \<Rightarrow>
                                   (Applied,
                                    store(nodeId item \<mapsto>
                                      setPaints node (property item) (paints[index item := newPaint])))))
                | _ \<Rightarrow> (Skipped, store))))"

definition applyBindingsStep :: "host \<Rightarrow> applyResult \<times> nodeStore \<Rightarrow> scanItem \<Rightarrow> applyResult \<times> nodeStore" where
  "applyBindingsStep h st item =
     (case matchVariableId item of
        None \<Rightarrow> st
      | Some vid \<Rightarrow>
          (case applyBindingItem h (snd st) item vid of
             (oc, store') \<Rightarrow> (countOutcome (fst st) oc, store')))"

definition applyBindingsToItems :: "host \<Rightarrow> nodeStore \<Rightarrow> scanItem list \<Rightarrow> applyResult \<times> nodeStore" where
  "applyBindingsToItems h store items' =
     (let toApply = filter (\<lambda>i. matchVariableId i \<noteq> None) items'
      in foldl (applyBindingsStep h) (noResult, store) toApply)"

text \<open>
  The body of the loop of \<open>applyTokenToColor\<close>, for the variable \<open>v\<close> that was
  resolved before the loop.
\<close>

definition applyTokenItem :: "host \<Rightarrow> nodeStore \<Rightarrow> variable \<Rightarrow> scanItem \<Rightarrow> outcome \<times> nodeStore" where
  "applyTokenItem h store v item =
     (case store (nodeId item) of
        None \<Rightarrow> (Failed (''['' @ nodeName item @ ''] '' @ msgNodeNotFound), store)
      | Some node \<Rightarrow>
          (case paintsOf node (property item) of
             Paints paints \<Rightarrow>
               if length paints \<le> index item then (Skipped, store)
               else (case paints ! index item of
                       OtherPaint \<Rightarrow> (Skipped, store)
                     | SolidPaint c op bv \<Rightarrow>
                         (case setBoundVariableForPaint h (paints ! index item) v of
                            Inl e \<Rightarrow> (Failed (''['' @ nodeName item @ '']: '' @ e), store)
                          | Inr newPaint \<Rightarrow>
                              (Applied,
                               store(nodeId item \<mapsto>
                                 setPaints node (property item) (paints[index item := newPaint])))))
           | _ \<Rightarrow> (Skipped, store)))"

definition applyTokenStep :: "host \<Rightarrow> variable \<Rightarrow> applyResult \<times> nodeStore \<Rightarrow> scanItem \<Rightarrow> applyResult \<times> nodeStore" where
  "applyTokenStep h v st item =
     (case applyTokenItem h (snd st) v item of
        (oc, store') \<Rightarrow> (countOutcome (fst st) oc, store'))"

definition itemsToBind :: "scanItem list \<Rightarrow> string \<Rightarrow> scanItem list" where
  "itemsToBind lastScanItems targetHex =
     filter (\<lambda>item. matchVariableId item = None
                     \<and> (case currentColor item of RGB r g b \<Rightarrow> rgbToHexStr r g b = targetHex))
       lastScanItems"

definition applyTokenToColor ::
  "host \<Rightarrow> nodeStore \<Rightarrow> scanItem list \<Rightarrow> string \<Rightarrow> string \<Rightarrow> applyResult \<times> nodeStore" where
  "applyTokenToColor h store lastScanItems hex' vid =
     (let targetHex = trim (stripHash hex');
          toBind = itemsToBind lastScanItems targetHex
      in if length toBind = 0 then (noResult, store)
         else (case getVariableById h vid of
                 None \<Rightarrow> (\<lparr>appliedCount = 0, skippedCount = 0, failedCount = length toBind,
                            failedReasons = [msgVariableNotFound]\<rparr>, store)
               | Some v \<Rightarrow> foldl (applyTokenStep h v) (noResult, store) toBind))"

text \<open>
  Results as the specification words them: the result of a run in which a single
  item was applied, was skipped, or failed with the given reason; and the result of
  two runs one after the other, the counts added and the reasons of the second
  after those of the first.
\<close>

definition appliedOnce :: applyResult where
  "appliedOnce = \<lparr>appliedCount = 1, skippedCount = 0, failedCount = 0, failedReasons = []\<rparr>"

definition skippedOnce :: applyResult where
  "skippedOnce = \<lparr>appliedCount = 0, skippedCount = 1, failedCount = 0, failedReasons = []\<rparr>"

definition failedOnce :: "string \<Rightarrow> applyResult" where
  "failedOnce reason = \<lparr>appliedCount = 0, skippedCount = 0, failedCount = 1, failedReasons = [reason]\<rparr>"

definition addResults :: "applyResult \<Rightarrow> applyResult \<Rightarrow> applyResult" where
  "addResults r1 r2 =
     \<lparr>appliedCount = appliedCount r1 + appliedCount r2,
      skippedCount = skippedCount r1 + skippedCount r2,
      failedCount = failedCount r1 + failedCount r2,
      failedReasons = failedReasons r1 @ failedReasons r2\<rparr>"

text \<open>The outcomes of the two loops, item by item, and the store they leave.\<close>

fun applyBindingsTrace :: "host \<Rightarrow> nodeStore \<Rightarrow> scanItem list \<Rightarrow> outcome list \<times> nodeStore" where
  "applyBindingsTrace h store [] = ([], store)"
| "applyBindingsTrace h store (item # rest) =
     (case matchVariableId item of
        None \<Rightarrow> applyBindingsTrace h store rest
      | Some vid \<Rightarrow>
          (case applyBindingItem h store item vid of
             (oc, store') \<Rightarrow>
               (case applyBindingsTrace h store' rest of (ocs, store'') \<Rightarrow> (oc # ocs, store''))))"

fun applyTokenTrace :: "host \<Rightarrow> nodeStore \<Rightarrow> variable \<Rightarrow> scanItem list \<Rightarrow> outcome list \<times> nodeStore" where
  "applyTokenTrace h store v [] = ([], store)"
| "applyTokenTrace h store v (item # rest) =
     (case applyTokenItem h store v item of
        (oc, store') \<Rightarrow>
          (case applyTokenTrace h store' v rest of (ocs, store'') \<Rightarrow> (oc # ocs, store'')))"

text \<open>A failure reason starts with the name of the item's element in brackets.\<close>

definition namedOutcome :: "scanItem \<Rightarrow> outcome \<Rightarrow> bool" where
  "namedOutcome item oc =
     (case oc of Failed reason \<Rightarrow> startsWith reason (''['' @ nodeName item @ '']'') | _ \<Rightarrow> True)"

definition reasonsOf :: "outcome list \<Rightarrow> string list" where
  "reasonsOf ocs = concat (map (\<lambda>oc. case oc of Failed reason \<Rightarrow> [reason] | _ \<Rightarrow> []) ocs)"

text \<open>The slot of an element carries a bound variable.\<close>

definition slotBound :: "nodeStore \<Rightarrow> string \<Rightarrow> paintProperty \<Rightarrow> nat \<Rightarrow> bool" where
  "slotBound store nid p i =
     (case store nid of None \<Rightarrow> False | Some node \<Rightarrow> boundVariableAt node p i \<noteq> None)"

text \<open>What a bind returns when it does not throw: a solid paint that carries a variable.\<close>

definition bindsVariable :: "host \<Rightarrow> bool" where
  "bindsVariable h =
     (\<forall>p v p'. setBoundVariableForPaint h p v = Inr p' \<longrightarrow> (\<exists>c op x. p' = SolidPaint c op (Some x)))"


text \<open>The slot exists, is a solid paint and carries no variable.\<close>

definition slotEligible :: "sceneNode \<Rightarrow> paintProperty \<Rightarrow> nat \<Rightarrow> bool" where
  "slotEligible node p i =
     (case paintsOf node p of
        Paints ps \<Rightarrow> i < length ps \<and> (case ps ! i of SolidPaint c op bv \<Rightarrow> bv = None | OtherPaint \<Rightarrow> False)
      | _ \<Rightarrow> False)"

text \<open>Every slot bound in the first store is bound in the second.\<close>

definition boundKept :: "nodeStore \<Rightarrow> nodeStore \<Rightarrow> bool" where
  "boundKept s t = (\<forall>nid p i. slotBound s nid p i \<longrightarrow> slotBound t nid p i)"

section \<open>Example data\<close>

text \<open>A bind that throws for a variable that is not a colour and for a paint that is not solid.\<close>

definition exBind :: "paint \<Rightarrow> variable \<Rightarrow> paint result" where
  "exBind p v =
     (case p of
        SolidPaint c op bv \<Rightarrow>
          if resolvedType v = COLOR then Inr (SolidPaint c op (Some (varId v)))
          else Inl ''variable is not a color''
      | OtherPaint \<Rightarrow> Inl ''paint is not solid'')"

definition exBlue :: variable where
  "exBlue = \<lparr>varId = ''V:blue'', varName = ''blue/500'', resolvedType = COLOR,
             valuesByMode = [(''m:light'', ColorValue 0 0 1 (Some 1))]\<rparr>"

definition exSize :: variable where
  "exSize = \<lparr>varId = ''V:size'', varName = ''size/4'', resolvedType = FLOAT,
             valuesByMode = [(''m:light'', OtherValue)]\<rparr>"

definition exBlackBg :: variable where
  "exBlackBg = \<lparr>varId = ''V:black'', varName = ''Black/bg'', resolvedType = COLOR,
                valuesByMode = [(''m:light'', ColorValue 0 0 0 (Some 1))]\<rparr>"

definition exColorBg :: variable where
  "exColorBg = \<lparr>varId = ''V:color'', varName = ''Color/bg'', resolvedType = COLOR,
                valuesByMode = [(''m:light'', ColorValue 0 0 0 None)]\<rparr>"

definition exGray :: variable where
  "exGray = \<lparr>varId = ''V:gray'', varName = ''Gray/mid'', resolvedType = COLOR,
             valuesByMode = [(''m:light'', ColorValue (1 / 2) (1 / 2) (1 / 2) (Some 1))]\<rparr>"

definition exVariables :: "string \<Rightarrow> variable option" where
  "exVariables = map_of [(''V:blue'', exBlue), (''V:size'', exSize), (''V:black'', exBlackBg),
                         (''V:color'', exColorBg), (''V:gray'', exGray)]"

definition exLight :: collectionMode where
  "exLight = \<lparr>modeId = ''m:light'', modeName = ''Light''\<rparr>"

text \<open>A local collection with one colour, as in the scenarios of the specification.\<close>

definition exPrimitive :: variableCollection where
  "exPrimitive = \<lparr>collName = ''Primitive'', modes = [exLight], variableIds = [''V:blue'']\<rparr>"

text \<open>A local collection with groups; \<open>Black/bg\<close> comes before \<open>Color/bg\<close>.\<close>

definition exGroups :: variableCollection where
  "exGroups = \<lparr>collName = ''Groups'', modes = [exLight],
               variableIds = [''V:black'', ''V:color'', ''V:gray'']\<rparr>"

definition exBrand :: libraryVariableCollection where
  "exBrand = \<lparr>libName = ''Brand'', libKey = ''k1''\<rparr>"

definition exHost :: host where
  "exHost = \<lparr>getLocalVariableCollections = Inr [exPrimitive, exGroups],
             teamLibrary = Some (Inr [exBrand]),
             getVariableById = exVariables,
             setBoundVariableForPaint = exBind\<rparr>"

text \<open>The same host at an earlier time, when a local collection was also called \<open>Brand\<close>.\<close>

definition exHostBefore :: host where
  "exHostBefore = \<lparr>getLocalVariableCollections = Inr [exPrimitive\<lparr>collName := ''Brand''\<rparr>],
                   teamLibrary = Some (Inr [exBrand]),
                   getVariableById = exVariables,
                   setBoundVariableForPaint = exBind\<rparr>"

text \<open>A host whose catalog cannot be read.\<close>

definition exHostBroken :: host where
  "exHostBroken = \<lparr>getLocalVariableCollections = Inl ''catalog unavailable'',
                   teamLibrary = None,
                   getVariableById = exVariables,
                   setBoundVariableForPaint = exBind\<rparr>"

text \<open>Two elements with a red fill; the fill of the second is bound already.\<close>

definition exRect :: sceneNode where
  "exRect = SceneNode ''1:1'' ''Rect'' (Paints [SolidPaint (RGB 1 0 0) None None]) (Paints []) []"

definition exBoundRect :: sceneNode where
  "exBoundRect = SceneNode ''1:2'' ''Card'' (Paints [SolidPaint (RGB 1 0 0) None (Some ''V:old'')]) Absent []"

definition exStore :: nodeStore where
  "exStore = [''1:1'' \<mapsto> exRect, ''1:2'' \<mapsto> exBoundRect]"

definition exItem :: "string \<Rightarrow> string \<Rightarrow> string option \<Rightarrow> scanItem" where
  "exItem nid nname vid =
     \<lparr>nodeId = nid, nodeName = nname, property = Fills, index = 0, currentColor = RGB 1 0 0,
      opacity = 1, matchVariableId = vid, matchVariableName = map_option (\<lambda>_. ''token'') vid\<rparr>"

definition exDocument :: document where
  "exDocument = \<lparr>selection = Inr [exRect], currentPage = SceneNode ''0:1'' ''Page'' Absent Absent [exRect]\<rparr>"

section \<open>The colour variables of a collection\<close>

text \<open>
  What both loops over \<open>variableIds\<close> keep of an id: the variable it resolves to, if
  that is of type \<open>COLOR\<close> and its value under the mode is a colour, with that colour.
\<close>

type_synonym colorVariable = "variable \<times> real \<times> real \<times> real \<times> real option"

definition colorVariable :: "host \<Rightarrow> string \<Rightarrow> string \<Rightarrow> colorVariable option" where
  "colorVariable h mid vid =
     (case getVariableById h vid of
        None \<Rightarrow> None
      | Some v \<Rightarrow>
          if resolvedType v \<noteq> COLOR then None
          else (case map_of (valuesByMode v) mid of
                  Some (ColorValue r g b a) \<Rightarrow> Some (v, r, g, b, a)
                | _ \<Rightarrow> None))"


text \<open>The entry of the exact map and the element of the list made from a colour variable.\<close>

definition mapEntryOf :: "colorVariable \<Rightarrow> exactKey \<times> (variable \<times> string)" where
  "mapEntryOf cv = (case cv of (v, r, g, b, a) \<Rightarrow> (rgbOpacityKey r g b (Some (orOne a)), (v, varName v)))"



section \<open>The HEX round trip\<close>

lemma hexVal_SomeD:
  assumes "hexVal c = Some d"
  shows "d < 16 \<and> hexDigit d = toLowerChar c \<and> \<not> isSpace c \<and> c \<noteq> CHR ''-'' \<and> c \<noteq> CHR ''+''
         \<and> c \<noteq> CHR ''x'' \<and> c \<noteq> CHR ''X'' \<and> c \<noteq> CHR ''#''"
  using assms
  by (auto simp: hexVal_def hexDigit_def toLowerChar_def isSpace_def split: if_splits)

lemma and_255_int: "(x::int) AND 255 = x mod 256"
proof -
  have "x AND mask 8 = x mod 2 ^ 8"
    by (simp only: take_bit_eq_mask [symmetric] take_bit_eq_mod)
  then show ?thesis by (simp add: mask_eq_exp_minus_1)
qed

lemma toInt32_small: "0 \<le> n \<Longrightarrow> n < 2 ^ 31 \<Longrightarrow> toInt32 n = n"
  by (simp add: toInt32_def Let_def)

lemma channel_small:
  "0 \<le> n \<Longrightarrow> n < 2 ^ 31 \<Longrightarrow> channel n k = real_of_int ((n div 2 ^ k) mod 256) / 255"
  by (simp add: channel_def toInt32_small and_255_int drop_bit_eq_div)

lemma to255_byte: "k \<le> 255 \<Longrightarrow> to255 (real k / 255) = k"
proof -
  assume k: "k \<le> 255"
  then have "max 0 (min 1 (real k / 255)) = real k / 255" by simp
  moreover have "\<lfloor>real k + 1 / 2\<rfloor> = int k" by linarith
  ultimately show ?thesis by (simp add: to255_def mathRound_def)
qed

lemma pad_byte:
  assumes "d0 < 16" "d1 < 16"
  shows "padStart2 (toString16 (16 * d0 + d1)) = [hexDigit d0, hexDigit d1]"
proof (cases "d0 = 0")
  case True
  with assms show ?thesis
    by (simp add: toString16.simps [of d1] padStart2_def hexDigit_def)
next
  case False
  with assms have "\<not> 16 * d0 + d1 < 16" "(16 * d0 + d1) div 16 = d0" "(16 * d0 + d1) mod 16 = d1"
    by simp_all
  with assms show ?thesis
    by (simp add: toString16.simps [of "16 * d0 + d1"] toString16.simps [of d0] padStart2_def)
qed

lemma rgbToHexStr_bytes:
  assumes "a0 < 16" "a1 < 16" "a2 < 16" "a3 < 16" "a4 < 16" "a5 < 16"
  shows "rgbToHexStr (real (16 * a0 + a1) / 255) (real (16 * a2 + a3) / 255) (real (16 * a4 + a5) / 255)
         = map hexDigit [a0, a1, a2, a3, a4, a5]"
proof -
  from assms have "16 * a0 + a1 \<le> 255" "16 * a2 + a3 \<le> 255" "16 * a4 + a5 \<le> 255" by simp_all
  then show ?thesis
    unfolding rgbToHexStr_def
    by (simp only: to255_byte) (simp add: pad_byte assms)
qed


lemma six_list:
  assumes "length h = 6"
  obtains c0 c1 c2 c3 c4 c5 where "h = [c0, c1, c2, c3, c4, c5]"
  using assms
  by (cases h; simp; rename_tac t; case_tac t; simp; rename_tac t; case_tac t; simp;
      rename_tac t; case_tac t; simp; rename_tac t; case_tac t; simp; rename_tac t; case_tac t; simp)

lemma parseInt16_digits:
  assumes "hexVal c0 = Some d0" "hexVal c1 = Some d1" "hexVal c2 = Some d2"
          "hexVal c3 = Some d3" "hexVal c4 = Some d4" "hexVal c5 = Some d5"
  shows "parseInt16 [c0, c1, c2, c3, c4, c5]
         = Some (int (65536 * (16 * d0 + d1) + 256 * (16 * d2 + d3) + (16 * d4 + d5)))"
  using assms hexVal_SomeD [OF assms(1)] hexVal_SomeD [OF assms(2)]
  by (simp add: parseInt16_def)

lemma trim_digits:
  assumes "hexVal c0 = Some d0" "hexVal c5 = Some d5"
  shows "trim (stripHash [c0, c1, c2, c3, c4, c5]) = [c0, c1, c2, c3, c4, c5]"
  using hexVal_SomeD [OF assms(1)] hexVal_SomeD [OF assms(2)]
  by (simp add: trim_def stripHash_def)

lemma bytes_split:
  fixes A B C :: nat
  assumes "A < 256" "B < 256" "C < 256"
  shows "(65536 * A + 256 * B + C) div 65536 mod 256 = A"
    and "(65536 * A + 256 * B + C) div 256 mod 256 = B"
    and "(65536 * A + 256 * B + C) mod 256 = C"
proof -
  have lo: "256 * B + C < 65536" using assms by simp
  have "(65536 * A + 256 * B + C) div 65536 = (256 * B + C + A * 65536) div 65536"
    by (simp add: ac_simps)
  also have "\<dots> = A" using lo by simp
  finally show "(65536 * A + 256 * B + C) div 65536 mod 256 = A" using assms by simp
  have "(65536 * A + 256 * B + C) div 256 = (C + (256 * A + B) * 256) div 256"
    by (simp add: ac_simps)
  also have "\<dots> = 256 * A + B" using assms by simp
  finally show "(65536 * A + 256 * B + C) div 256 mod 256 = B" using assms by simp
  have "65536 * A + 256 * B + C = C + 256 * (256 * A + B)" by simp
  then have "(65536 * A + 256 * B + C) mod 256 = (C + 256 * (256 * A + B)) mod 256" by (rule arg_cong)
  also have "\<dots> = C mod 256" by (rule mod_mult_self2)
  finally show "(65536 * A + 256 * B + C) mod 256 = C" using assms by simp
qed

lemma channels_digits:
  fixes A B C :: nat
  assumes "A < 256" "B < 256" "C < 256"
  defines "n \<equiv> int (65536 * A + 256 * B + C)"
  shows "channel n 16 = real A / 255"
    and "channel n 8 = real B / 255"
    and "channel n 0 = real C / 255"
proof -
  have b: "0 \<le> n" "n < 2 ^ 31" using assms by (simp_all add: n_def)
  have "n div 2 ^ 16 mod 256 = int ((65536 * A + 256 * B + C) div 65536 mod 256)"
    "n div 2 ^ 8 mod 256 = int ((65536 * A + 256 * B + C) div 256 mod 256)"
    "n div 2 ^ 0 mod 256 = int ((65536 * A + 256 * B + C) mod 256)"
    unfolding n_def by (simp_all add: zdiv_int zmod_int)
  then have
    "n div 2 ^ 16 mod 256 = int A" "n div 2 ^ 8 mod 256 = int B" "n div 2 ^ 0 mod 256 = int C"
    using assms(1-3) by (simp_all only: bytes_split)
  then show "channel n 16 = real A / 255"
    and "channel n 8 = real B / 255"
    and "channel n 0 = real C / 255"
    using b by (simp_all add: channel_small)
qed

text \<open>
  C7 (as amended). For every string \<open>h\<close> of exactly six hex digits, parsing \<open>h\<close> and
  formatting the result gives \<open>h\<close> with its letters in lower case; so the round trip
  returns \<open>h\<close> itself exactly when \<open>h\<close> has no upper-case digit.
\<close>

theorem hex_roundtrip_lowercase:
  assumes len: "length h = 6" and hex: "\<forall>c \<in> set h. hexVal c \<noteq> None"
  shows "hexOfParsed h = Some (toLowerCase h)"
proof -
  from len obtain c0 c1 c2 c3 c4 c5 where h: "h = [c0, c1, c2, c3, c4, c5]"
    by (rule six_list)
  from hex obtain d0 d1 d2 d3 d4 d5 where
    d: "hexVal c0 = Some d0" "hexVal c1 = Some d1" "hexVal c2 = Some d2"
       "hexVal c3 = Some d3" "hexVal c4 = Some d4" "hexVal c5 = Some d5"
    unfolding h by auto
  note D = hexVal_SomeD [OF d(1)] hexVal_SomeD [OF d(2)] hexVal_SomeD [OF d(3)]
           hexVal_SomeD [OF d(4)] hexVal_SomeD [OF d(5)] hexVal_SomeD [OF d(6)]
  have lt: "16 * d0 + d1 < 256" "16 * d2 + d3 < 256" "16 * d4 + d5 < 256"
    using D by simp_all
  define n where "n = int (65536 * (16 * d0 + d1) + 256 * (16 * d2 + d3) + (16 * d4 + d5))"
  have pi: "parseInt16 [c0, c1, c2, c3, c4, c5] = Some n"
    unfolding n_def by (rule parseInt16_digits [OF d])
  have ch: "channel n 16 = real (16 * d0 + d1) / 255" "channel n 8 = real (16 * d2 + d3) / 255"
    "channel n 0 = real (16 * d4 + d5) / 255"
    unfolding n_def by (rule channels_digits [OF lt])+
  have p: "parseHexToRgb h = Some (RGB (real (16 * d0 + d1) / 255) (real (16 * d2 + d3) / 255)
                                       (real (16 * d4 + d5) / 255))"
    unfolding parseHexToRgb_def h trim_digits [OF d(1) d(6)] Let_def pi
    by (simp add: ch)
  have "rgbToHexStr (real (16 * d0 + d1) / 255) (real (16 * d2 + d3) / 255) (real (16 * d4 + d5) / 255)
        = map hexDigit [d0, d1, d2, d3, d4, d5]"
    using D by (intro rgbToHexStr_bytes) simp_all
  also have "\<dots> = toLowerCase h"
    using D by (simp add: h toLowerCase_def)
  finally show ?thesis by (simp add: hexOfParsed_def p)
qed

theorem hex_roundtrip_lowercase_witness:
  "hexOfParsed ''FF00a7'' = Some ''ff00a7''"
proof -
  have l: "length ''FF00a7'' = 6" by simp
  have x: "\<forall>c \<in> set ''FF00a7''. hexVal c \<noteq> None" by (simp add: hexVal_def)
  from hex_roundtrip_lowercase [OF l x] show ?thesis
    by (simp add: toLowerCase_def toLowerChar_def)
qed

text \<open>
  C7 as stated fails on upper-case digits: \<open>FF0000\<close> is six hex digits and comes
  back as \<open>ff0000\<close>.
\<close>

theorem hex_roundtrip_counterexample:
  "hexOfParsed ''FF0000'' = Some ''ff0000'' \<and> hexOfParsed ''FF0000'' \<noteq> Some ''FF0000''"
proof -
  have p: "parseHexToRgb ''FF0000'' = Some (RGB 1 0 0)"
    by (simp add: parseHexToRgb_def trim_def stripHash_def isSpace_def parseInt16_def hexVal_def
        channel_def toInt32_def)
  have q: "rgbToHexStr 1 0 0 = ''ff0000''"
    by (simp add: rgbToHexStr_def to255_def mathRound_def padStart2_def toString16.simps hexDigit_def)
  show ?thesis by (simp add: hexOfParsed_def p q)
qed

section \<open>Exact-match keys: alphas that are close\<close>

text \<open>
  The two products of the example are far from a half: whatever is within \<open>0.05\<close> of
  \<open>0.4\<close> rounds to \<open>0\<close> and whatever is within \<open>0.05\<close> of \<open>0.6\<close> rounds to \<open>1\<close>,
  so the rounding of the doubles does not change what the code computes there.
\<close>

lemma mathRound_far_from_half:
  assumes "\<bar>x - 4 / 10\<bar> < 1 / 20" "\<bar>y - 6 / 10\<bar> < 1 / 20"
  shows "mathRound x = 0 \<and> mathRound y = 1"
proof -
  from assms(1) have "0 \<le> x + 1 / 2" "x + 1 / 2 < 1" by linarith+
  then have "\<lfloor>x + 1 / 2\<rfloor> = 0" by linarith
  moreover from assms(2) have "1 \<le> y + 1 / 2" "y + 1 / 2 < 2" by linarith+
  then have "\<lfloor>y + 1 / 2\<rfloor> = 1" by linarith
  ultimately show ?thesis by (simp add: mathRound_def)
qed

text \<open>
  C1 at a failing input. The alphas \<open>0.004\<close> and \<open>0.006\<close> are \<open>0.002\<close> apart, less
  than \<open>0.01\<close>, and so are to count as identical for the key; the first rounds to
  \<open>0\<close> and the second to \<open>0.01\<close>, and the keys of the same colour with these two
  alphas differ.
\<close>

theorem rgbOpacityKey_separates_close_alphas:
  "\<bar>orOne (Some (4 / 1000)) - orOne (Some (6 / 1000))\<bar> < 1 / 100
   \<and> rgbOpacityKey 0 0 0 (Some (4 / 1000)) = (0, 0, 0, 0)
   \<and> rgbOpacityKey 0 0 0 (Some (6 / 1000)) = (0, 0, 0, 1 / 100)
   \<and> rgbOpacityKey 0 0 0 (Some (4 / 1000)) \<noteq> rgbOpacityKey 0 0 0 (Some (6 / 1000))"
  by (simp add: rgbOpacityKey_def roundAlpha_def orOne_def mathRound_def)

section \<open>Candidate ranking: order and length\<close>

lemma set_insertBy: "set (insertBy cmp x ys) = insert x (set ys)"
  by (induction ys) auto

lemma mset_insertBy: "mset (insertBy cmp x ys) = add_mset x (mset ys)"
  by (induction ys) auto

lemma mset_sortBy: "mset (sortBy cmp xs) = mset xs"
  by (induction xs) (simp_all add: sortBy_def mset_insertBy)

lemma set_sortBy: "set (sortBy cmp xs) = set xs"
  by (metis mset_sortBy set_mset_mset)

lemma length_sortBy: "length (sortBy cmp xs) = length xs"
  by (metis mset_sortBy size_mset)

lemma sorted_insertBy:
  assumes total: "\<And>a b. a \<in> S \<Longrightarrow> b \<in> S \<Longrightarrow> cmp a b \<le> 0 \<or> cmp b a \<le> 0"
    and trans: "\<And>a b c. a \<in> S \<Longrightarrow> b \<in> S \<Longrightarrow> c \<in> S \<Longrightarrow> cmp a b \<le> 0 \<Longrightarrow> cmp b c \<le> 0 \<Longrightarrow> cmp a c \<le> 0"
    and sub: "x \<in> S" "set ys \<subseteq> S"
    and sorted: "sorted_wrt (\<lambda>a b. cmp a b \<le> 0) ys"
  shows "sorted_wrt (\<lambda>a b. cmp a b \<le> 0) (insertBy cmp x ys)"
  using sub sorted
proof (induction ys)
  case Nil
  then show ?case by simp
next
  case (Cons y ys)
  have yS: "y \<in> S" and ysS: "set ys \<subseteq> S" using Cons.prems(2) by simp_all
  have sy: "\<forall>z \<in> set ys. cmp y z \<le> 0" and sys: "sorted_wrt (\<lambda>a b. cmp a b \<le> 0) ys"
    using Cons.prems(3) by simp_all
  show ?case
  proof (cases "cmp x y \<le> 0")
    case True
    have "\<forall>z \<in> set ys. cmp x z \<le> 0"
    proof
      fix z assume z: "z \<in> set ys"
      then have "cmp y z \<le> 0" using sy by blast
      moreover have "z \<in> S" using z ysS by blast
      ultimately show "cmp x z \<le> 0" using trans [OF Cons.prems(1) yS _ True] by blast
    qed
    with True sy sys show ?thesis by simp
  next
    case False
    then have yx: "cmp y x \<le> 0" using total [OF Cons.prems(1) yS] by blast
    have ih: "sorted_wrt (\<lambda>a b. cmp a b \<le> 0) (insertBy cmp x ys)"
      by (rule Cons.IH [OF Cons.prems(1) ysS sys])
    have "\<forall>z \<in> set (insertBy cmp x ys). cmp y z \<le> 0"
      using sy yx by (simp add: set_insertBy)
    with False ih show ?thesis by simp
  qed
qed

lemma sorted_sortBy:
  assumes total: "\<And>a b. a \<in> S \<Longrightarrow> b \<in> S \<Longrightarrow> cmp a b \<le> 0 \<or> cmp b a \<le> 0"
    and trans: "\<And>a b c. a \<in> S \<Longrightarrow> b \<in> S \<Longrightarrow> c \<in> S \<Longrightarrow> cmp a b \<le> 0 \<Longrightarrow> cmp b c \<le> 0 \<Longrightarrow> cmp a c \<le> 0"
    and sub: "set xs \<subseteq> S"
  shows "sorted_wrt (\<lambda>a b. cmp a b \<le> 0) (sortBy cmp xs)"
  using sub
proof (induction xs)
  case Nil
  then show ?case by (simp add: sortBy_def)
next
  case (Cons x xs)
  have xS: "x \<in> S" and xsS: "set xs \<subseteq> S" using Cons.prems by simp_all
  have ih: "sorted_wrt (\<lambda>a b. cmp a b \<le> 0) (sortBy cmp xs)"
    by (rule Cons.IH [OF xsS])
  have "sorted_wrt (\<lambda>a b. cmp a b \<le> 0) (insertBy cmp x (sortBy cmp xs))"
  proof (rule sorted_insertBy [where S = S])
    show "set (sortBy cmp xs) \<subseteq> S" by (simp add: set_sortBy xsS)
  qed (use total trans xS ih in blast)+
  then show ?case by (simp add: sortBy_def)
qed

lemma compare_total:
  assumes "collationOrder lc"
  shows "compareCandidates lc x y \<le> 0 \<or> compareCandidates lc y x \<le> 0"
proof -
  from assms have "lc (variableName x) (variableName y) \<le> 0 \<or> lc (variableName y) (variableName x) \<le> 0"
    unfolding collationOrder_def by blast
  then show ?thesis
    unfolding compareCandidates_def by (auto simp: abs_minus_commute)
qed

lemma compare_trans:
  assumes lc: "collationOrder lc"
    and tt: "tiesTransitive ws"
    and mem: "x \<in> set ws" "y \<in> set ws" "z \<in> set ws"
    and xy: "compareCandidates lc x y \<le> 0" and yz: "compareCandidates lc y z \<le> 0"
  shows "compareCandidates lc x z \<le> 0"
proof -
  have sym: "\<And>u v. tie u v = tie v u" by (simp add: tie_def abs_minus_commute)
  have T: "\<And>u v w. u \<in> set ws \<Longrightarrow> v \<in> set ws \<Longrightarrow> w \<in> set ws \<Longrightarrow> tie u v \<Longrightarrow> tie v w \<Longrightarrow> tie u w"
    using tt unfolding tiesTransitive_def by blast
  have L: "\<And>s t u. lc s t \<le> 0 \<Longrightarrow> lc t u \<le> 0 \<Longrightarrow> lc s u \<le> 0"
    using lc unfolding collationOrder_def by blast
  have C: "\<And>u v. compareCandidates lc u v \<le> 0 \<longleftrightarrow>
            (if tie u v then lc (variableName u) (variableName v) \<le> 0 else distance u \<le> distance v)"
    by (simp add: compareCandidates_def tie_def)
  have D: "distance u + 1 / 10 ^ 6 \<le> distance v" if "\<not> tie u v" "compareCandidates lc u v \<le> 0" for u v
  proof -
    from that have "distance u - distance v \<le> 0" by (simp add: compareCandidates_def tie_def)
    moreover from that(1) have "\<not> \<bar>distance u - distance v\<bar> < 1 / 10 ^ 6" unfolding tie_def .
    ultimately show ?thesis by linarith
  qed
  have N: "\<not> tie u v \<and> compareCandidates lc u v \<le> 0" if "distance u + 1 / 10 ^ 6 \<le> distance v" for u v
  proof -
    have "(0::real) < 1 / 10 ^ 6" by simp
    with that have "\<not> \<bar>distance u - distance v\<bar> < 1 / 10 ^ 6" "distance u - distance v \<le> 0"
      by linarith+
    then show ?thesis by (simp add: compareCandidates_def tie_def)
  qed
  have E: "\<And>u v. tie u v \<Longrightarrow> distance u < distance v + 1 / 10 ^ 6 \<and> distance v < distance u + 1 / 10 ^ 6"
    unfolding tie_def by linarith
  consider (tt) "tie x y" "tie y z" | (tn) "tie x y" "\<not> tie y z" | (nt) "\<not> tie x y" "tie y z"
    | (nn) "\<not> tie x y" "\<not> tie y z" by blast
  then show ?thesis
  proof cases
    case tt
    then have "tie x z" using T mem by blast
    with tt xy yz show ?thesis unfolding C using L by auto
  next
    case tn
    have nxz: "\<not> tie x z" using T [of y x z] sym tn mem by blast
    have "distance x \<le> distance z"
      using E [OF tn(1)] D [OF tn(2) yz] by linarith
    with nxz show ?thesis unfolding C by simp
  next
    case nt
    have nxz: "\<not> tie x z" using T [of x z y] sym nt mem by blast
    have "distance x \<le> distance z"
      using E [OF nt(2)] D [OF nt(1) xy] by linarith
    with nxz show ?thesis unfolding C by simp
  next
    case nn
    have "distance x + 1 / 10 ^ 6 \<le> distance z"
      using D [OF nn(1) xy] D [OF nn(2) yz] by simp
    then show ?thesis using N by blast
  qed
qed

lemma collationOrder_codeUnitCompare: "collationOrder codeUnitCompare"
  unfolding collationOrder_def codeUnitCompare_def by auto

lemma claimedOrder_iff:
  "claimedOrder lc x y \<longleftrightarrow> compareCandidates lc x y \<le> 0"
proof (cases "\<bar>distance x - distance y\<bar> < 1 / 10 ^ 6")
  case True
  then show ?thesis by (simp add: claimedOrder_def compareCandidates_def)
next
  case False
  have "(0::real) < 1 / 10 ^ 6" by simp
  with False have "distance x < distance y \<longleftrightarrow> distance x - distance y \<le> 0" by linarith
  with False show ?thesis by (simp add: claimedOrder_def compareCandidates_def)
qed

lemma length_slice0: "0 \<le> e \<Longrightarrow> length (slice0 xs e) = min (nat e) (length xs)"
  by (simp add: slice0_def)

text \<open>
  When the collation is a total preorder and tying is transitive among the candidates,
  the comparator is a consistent order, and the sorted array is in the order that the
  specification states.
\<close>

lemma sorted_rankedCandidates:
  assumes "collationOrder lc" "tiesTransitive (map (addDistance t) list)"
  shows "sorted_wrt (claimedOrder lc) (rankedCandidates lc list t)"
proof -
  let ?ws = "map (addDistance t) list"
  have "sorted_wrt (\<lambda>a b. compareCandidates lc a b \<le> 0) (sortBy (compareCandidates lc) ?ws)"
  proof (rule sorted_sortBy [where S = "set ?ws"])
    show "\<And>a b. compareCandidates lc a b \<le> 0 \<or> compareCandidates lc b a \<le> 0"
      by (rule compare_total [OF assms(1)])
    show "\<And>a b c. a \<in> set ?ws \<Longrightarrow> b \<in> set ?ws \<Longrightarrow> c \<in> set ?ws \<Longrightarrow> compareCandidates lc a b \<le> 0
            \<Longrightarrow> compareCandidates lc b c \<le> 0 \<Longrightarrow> compareCandidates lc a c \<le> 0"
      by (rule compare_trans [OF assms])
  qed simp
  then show ?thesis
    unfolding rankedCandidates_def claimedOrder_iff [abs_def] .
qed

lemma computeCandidates_consistent:
  assumes "collationOrder lc" "tiesTransitive (map (addDistance t) list)" "0 \<le> limit"
  shows "computeCandidates lc list t limit = map toCandidate (take (nat limit) (rankedCandidates lc list t))
       \<and> mset (rankedCandidates lc list t) = mset (map (addDistance t) list)
       \<and> sorted_wrt (claimedOrder lc) (rankedCandidates lc list t)
       \<and> length (computeCandidates lc list t limit) = min (nat limit) (length list)"
proof -
  have "computeCandidates lc list t limit = map toCandidate (take (nat limit) (rankedCandidates lc list t))"
    using assms(3) by (simp add: computeCandidates_def slice0_def)
  moreover have "mset (rankedCandidates lc list t) = mset (map (addDistance t) list)"
    unfolding rankedCandidates_def by (rule mset_sortBy)
  moreover have "length (computeCandidates lc list t limit) = min (nat limit) (length list)"
    using assms(3) by (simp add: computeCandidates_def length_slice0 rankedCandidates_def length_sortBy)
  ultimately show ?thesis using sorted_rankedCandidates [OF assms(1,2)] by blast
qed

lemma hex_examples:
  "rgbToHexStr 0 0 0 = ''000000''" "rgbToHexStr (6 / 10 ^ 7) 0 0 = ''000000''"
  "rgbToHexStr (12 / 10 ^ 7) 0 0 = ''000000''" "rgbToHexStr (1 / 2) 0 0 = ''800000''"
  by (simp_all add: rgbToHexStr_def to255_def mathRound_def padStart2_def toString16.simps hexDigit_def)

lemma addDistance_examples:
  "addDistance (RGB 0 0 0) candC = \<lparr>variableId = ''v1'', variableName = ''c'', entryColor = RGB 0 0 0,
      hex = ''000000'', distance = 0\<rparr>"
  "addDistance (RGB 0 0 0) candB = \<lparr>variableId = ''v2'', variableName = ''b'', entryColor = RGB (6 / 10 ^ 7) 0 0,
      hex = ''000000'', distance = 6 / 10 ^ 7\<rparr>"
  "addDistance (RGB 0 0 0) candA = \<lparr>variableId = ''v3'', variableName = ''a'', entryColor = RGB (12 / 10 ^ 7) 0 0,
      hex = ''000000'', distance = 12 / 10 ^ 7\<rparr>"
  by (simp_all add: addDistance_def candC_def candB_def candA_def hex_examples del: power_numeral)

text \<open>
  Three candidates at the distances \<open>0\<close>, \<open>6e-7\<close> and \<open>12e-7\<close> from the target,
  named \<open>c\<close>, \<open>b\<close> and \<open>a\<close>: no arrangement of them is in the order that the
  specification states.
\<close>

lemma no_arrangement_in_claimed_order:
  assumes "mset ys = mset (map (addDistance (RGB 0 0 0)) [candC, candB, candA])"
  shows "\<not> sorted_wrt (claimedOrder codeUnitCompare) ys"
proof
  assume s: "sorted_wrt (claimedOrder codeUnitCompare) ys"
  let ?c = "addDistance (RGB 0 0 0) candC" and ?b = "addDistance (RGB 0 0 0) candB"
    and ?a = "addDistance (RGB 0 0 0) candA"
  from assms have "set ys = set (map (addDistance (RGB 0 0 0)) [candC, candB, candA])"
    by (rule mset_eq_setD)
  then have "?c \<in> set ys" "?b \<in> set ys" "?a \<in> set ys" by simp_all
  then obtain i j k where i: "i < length ys" "ys ! i = ?c" and j: "j < length ys" "ys ! j = ?b"
    and k: "k < length ys" "ys ! k = ?a"
    unfolding in_set_conv_nth by blast
  have ne: "?c \<noteq> ?b" "?b \<noteq> ?a" "?a \<noteq> ?c" by (simp_all add: addDistance_examples)
  have ncb: "\<not> claimedOrder codeUnitCompare ?c ?b"
    by (simp add: claimedOrder_def addDistance_examples codeUnitCompare_def)
  have nba: "\<not> claimedOrder codeUnitCompare ?b ?a"
    by (simp add: claimedOrder_def addDistance_examples codeUnitCompare_def)
  have nac: "\<not> claimedOrder codeUnitCompare ?a ?c"
    by (simp add: claimedOrder_def addDistance_examples codeUnitCompare_def)
  have P: "\<And>m n. m < n \<Longrightarrow> n < length ys \<Longrightarrow> claimedOrder codeUnitCompare (ys ! m) (ys ! n)"
    using s unfolding sorted_wrt_iff_nth_less by blast
  have "\<not> i < j" using P [of i j] j i ncb by auto
  moreover have "i \<noteq> j" using i j ne by auto
  moreover have "\<not> j < k" using P [of j k] j k nba by auto
  moreover have "j \<noteq> k" using j k ne by auto
  moreover have "\<not> k < i" using P [of k i] k i nac by auto
  moreover have "k \<noteq> i" using i k ne by auto
  ultimately show False by linarith
qed

text \<open>
  C6 at a failing input. Three candidates lie at the distances \<open>0\<close>, \<open>6e-7\<close> and
  \<open>12e-7\<close> from the target and are named \<open>c\<close>, \<open>b\<close> and \<open>a\<close>. The comparator
  that \<open>computeCandidates\<close> hands to \<open>sort\<close> takes the first two for a tie and puts
  \<open>b\<close> before \<open>c\<close>, takes the last two for a tie and puts \<open>a\<close> before \<open>b\<close>,
  and puts \<open>c\<close> before \<open>a\<close> by distance: it goes round in a circle. The array
  that \<open>sort\<close> returns is a rearrangement of the three, and so it is not ascending
  by distance with ties by name, whichever way the engine arranges it.
\<close>

theorem tie_comparator_goes_round:
  "distance (addDistance (RGB 0 0 0) candC) = 0
   \<and> distance (addDistance (RGB 0 0 0) candB) = 6 / 10 ^ 7
   \<and> distance (addDistance (RGB 0 0 0) candA) = 12 / 10 ^ 7
   \<and> 0 < compareCandidates codeUnitCompare (addDistance (RGB 0 0 0) candC) (addDistance (RGB 0 0 0) candB)
   \<and> 0 < compareCandidates codeUnitCompare (addDistance (RGB 0 0 0) candB) (addDistance (RGB 0 0 0) candA)
   \<and> compareCandidates codeUnitCompare (addDistance (RGB 0 0 0) candC) (addDistance (RGB 0 0 0) candA) < 0
   \<and> mset (rankedCandidates codeUnitCompare [candC, candB, candA] (RGB 0 0 0))
       = mset (map (addDistance (RGB 0 0 0)) [candC, candB, candA])
   \<and> \<not> sorted_wrt (claimedOrder codeUnitCompare)
         (rankedCandidates codeUnitCompare [candC, candB, candA] (RGB 0 0 0))"
proof -
  have m: "mset (rankedCandidates codeUnitCompare [candC, candB, candA] (RGB 0 0 0))
       = mset (map (addDistance (RGB 0 0 0)) [candC, candB, candA])"
    unfolding rankedCandidates_def by (rule mset_sortBy)
  from no_arrangement_in_claimed_order [OF m] m show ?thesis
    by (simp add: addDistance_examples compareCandidates_def codeUnitCompare_def)
qed

section \<open>The apply loops, item by item\<close>

lemma applyBindingsTrace_filter:
  "applyBindingsTrace h store (filter (\<lambda>i. matchVariableId i \<noteq> None) its) = applyBindingsTrace h store its"
  by (induction its arbitrary: store) (auto split: option.splits prod.splits)

lemma foldl_applyBindingsStep:
  "foldl (applyBindingsStep h) (res, store) its
     = (foldl countOutcome res (fst (applyBindingsTrace h store its)), snd (applyBindingsTrace h store its))"
proof (induction its arbitrary: res store)
  case Nil
  then show ?case by simp
next
  case (Cons item rest)
  show ?case
  proof (cases "matchVariableId item")
    case None
    then show ?thesis using Cons.IH by (simp add: applyBindingsStep_def)
  next
    case (Some vid)
    obtain oc store' where st: "applyBindingItem h store item vid = (oc, store')" by fastforce
    obtain ocs store'' where tr: "applyBindingsTrace h store' rest = (ocs, store'')" by fastforce
    have "foldl (applyBindingsStep h) (res, store) (item # rest)
            = foldl (applyBindingsStep h) (countOutcome res oc, store') rest"
      by (simp add: applyBindingsStep_def Some st)
    also have "\<dots> = (foldl countOutcome (countOutcome res oc) ocs, store'')"
      by (simp add: Cons.IH tr)
    finally show ?thesis by (simp add: Some st tr)
  qed
qed

lemma applyBindingsToItems_trace:
  "applyBindingsToItems h store its
     = (foldl countOutcome noResult (fst (applyBindingsTrace h store its)), snd (applyBindingsTrace h store its))"
  by (simp only: applyBindingsToItems_def Let_def foldl_applyBindingsStep applyBindingsTrace_filter)

lemma foldl_applyTokenStep:
  "foldl (applyTokenStep h v) (res, store) its
     = (foldl countOutcome res (fst (applyTokenTrace h store v its)), snd (applyTokenTrace h store v its))"
proof (induction its arbitrary: res store)
  case Nil
  then show ?case by simp
next
  case (Cons item rest)
  obtain oc store' where st: "applyTokenItem h store v item = (oc, store')" by fastforce
  obtain ocs store'' where tr: "applyTokenTrace h store' v rest = (ocs, store'')" by fastforce
  have "foldl (applyTokenStep h v) (res, store) (item # rest)
          = foldl (applyTokenStep h v) (countOutcome res oc, store') rest"
    by (simp add: applyTokenStep_def st)
  also have "\<dots> = (foldl countOutcome (countOutcome res oc) ocs, store'')"
    by (simp add: Cons.IH tr)
  finally show ?case by (simp add: st tr)
qed

lemma failedReasons_foldl:
  "failedReasons (foldl countOutcome res ocs) = failedReasons res @ reasonsOf ocs"
  by (induction ocs arbitrary: res) (auto simp: reasonsOf_def countOutcome_def split: outcome.splits)

lemma failedCount_foldl:
  "failedCount (foldl countOutcome res ocs) = failedCount res + length (reasonsOf ocs)"
  by (induction ocs arbitrary: res) (auto simp: reasonsOf_def countOutcome_def split: outcome.splits)

lemma total_foldl:
  "appliedCount (foldl countOutcome res ocs) + skippedCount (foldl countOutcome res ocs)
     + failedCount (foldl countOutcome res ocs)
   = appliedCount res + skippedCount res + failedCount res + length ocs"
  by (induction ocs arbitrary: res) (auto simp: countOutcome_def split: outcome.splits)

lemma applyBindingItem_named:
  "applyBindingItem h store item vid = (oc, store') \<Longrightarrow> namedOutcome item oc"
  by (auto simp: applyBindingItem_def namedOutcome_def startsWith_def
      split: option.splits paintsProperty.splits if_splits paint.splits sum.splits)

lemma applyTokenItem_named:
  "applyTokenItem h store v item = (oc, store') \<Longrightarrow> namedOutcome item oc"
  by (auto simp: applyTokenItem_def namedOutcome_def startsWith_def
      split: option.splits paintsProperty.splits if_splits paint.splits sum.splits)

lemma applyBindingsTrace_named:
  "list_all2 namedOutcome (filter (\<lambda>i. matchVariableId i \<noteq> None) its) (fst (applyBindingsTrace h store its))"
proof (induction its arbitrary: store)
  case Nil
  then show ?case by simp
next
  case (Cons item rest)
  show ?case
  proof (cases "matchVariableId item")
    case None
    then show ?thesis using Cons.IH by simp
  next
    case (Some vid)
    obtain oc store' where st: "applyBindingItem h store item vid = (oc, store')" by fastforce
    obtain ocs store'' where tr: "applyBindingsTrace h store' rest = (ocs, store'')" by fastforce
    from Cons.IH [of store'] tr have "list_all2 namedOutcome (filter (\<lambda>i. matchVariableId i \<noteq> None) rest) ocs"
      by simp
    with applyBindingItem_named [OF st] show ?thesis by (simp add: Some st tr)
  qed
qed

lemma applyTokenTrace_named:
  "list_all2 namedOutcome its (fst (applyTokenTrace h store v its))"
proof (induction its arbitrary: store)
  case Nil
  then show ?case by simp
next
  case (Cons item rest)
  obtain oc store' where st: "applyTokenItem h store v item = (oc, store')" by fastforce
  obtain ocs store'' where tr: "applyTokenTrace h store' v rest = (ocs, store'')" by fastforce
  from Cons.IH [of store'] tr have "list_all2 namedOutcome rest ocs" by simp
  with applyTokenItem_named [OF st] show ?case by (simp add: st tr)
qed

lemma apply_results_of_trace:
  assumes "res = foldl countOutcome noResult ocs"
  shows "failedReasons res = reasonsOf ocs \<and> failedCount res = length (failedReasons res)
       \<and> appliedCount res + skippedCount res + failedCount res = length ocs"
  using assms total_foldl [of noResult ocs]
  by (simp add: failedReasons_foldl failedCount_foldl noResult_def)

lemma applyBindingsTrace_append:
  "applyBindingsTrace h store (xs @ ys)
     = (fst (applyBindingsTrace h store xs)
          @ fst (applyBindingsTrace h (snd (applyBindingsTrace h store xs)) ys),
        snd (applyBindingsTrace h (snd (applyBindingsTrace h store xs)) ys))"
proof (induction xs arbitrary: store)
  case Nil
  then show ?case by simp
next
  case (Cons item rest)
  show ?case
  proof (cases "matchVariableId item")
    case None
    then show ?thesis using Cons.IH by simp
  next
    case (Some vid)
    obtain oc store' where st: "applyBindingItem h store item vid = (oc, store')" by fastforce
    show ?thesis by (simp add: Some st Cons.IH [of store'] split: prod.splits)
  qed
qed

lemma applyTokenTrace_append:
  "applyTokenTrace h store v (xs @ ys)
     = (fst (applyTokenTrace h store v xs)
          @ fst (applyTokenTrace h (snd (applyTokenTrace h store v xs)) v ys),
        snd (applyTokenTrace h (snd (applyTokenTrace h store v xs)) v ys))"
proof (induction xs arbitrary: store)
  case Nil
  then show ?case by simp
next
  case (Cons item rest)
  obtain oc store' where st: "applyTokenItem h store v item = (oc, store')" by fastforce
  show ?case by (simp add: st Cons.IH [of store'] split: prod.splits)
qed

lemma addResults_countOutcome:
  "addResults (countOutcome res oc) r = addResults res (addResults (countOutcome noResult oc) r)"
  by (cases oc) (simp_all add: addResults_def countOutcome_def noResult_def)

lemma foldl_countOutcome:
  "foldl countOutcome res ocs = addResults res (foldl countOutcome noResult ocs)"
proof (induction ocs arbitrary: res)
  case Nil
  show ?case by (simp add: addResults_def noResult_def)
next
  case (Cons oc ocs)
  have "foldl countOutcome res (oc # ocs)
          = addResults (countOutcome res oc) (foldl countOutcome noResult ocs)"
    using Cons.IH [of "countOutcome res oc"] by simp
  also have "\<dots> = addResults res (addResults (countOutcome noResult oc) (foldl countOutcome noResult ocs))"
    by (rule addResults_countOutcome)
  also have "\<dots> = addResults res (foldl countOutcome (countOutcome noResult oc) ocs)"
    using Cons.IH [of "countOutcome noResult oc"] by simp
  finally show ?case by simp
qed

lemma foldl_countOutcome_append:
  "foldl countOutcome (foldl countOutcome noResult os1) os2
     = addResults (foldl countOutcome noResult os1) (foldl countOutcome noResult os2)"
  by (rule foldl_countOutcome)

lemma applyBindingsToItems_append:
  "applyBindingsToItems h store (xs @ ys)
     = (addResults (fst (applyBindingsToItems h store xs))
          (fst (applyBindingsToItems h (snd (applyBindingsToItems h store xs)) ys)),
        snd (applyBindingsToItems h (snd (applyBindingsToItems h store xs)) ys))"
  by (simp add: applyBindingsToItems_trace applyBindingsTrace_append foldl_countOutcome_append)

lemma applyTokenToColor_resolved:
  assumes "getVariableById h vid = Some v"
  shows "applyTokenToColor h store its hex' vid
     = (foldl countOutcome noResult
          (fst (applyTokenTrace h store v (itemsToBind its (trim (stripHash hex'))))),
        snd (applyTokenTrace h store v (itemsToBind its (trim (stripHash hex')))))"
proof (cases "itemsToBind its (trim (stripHash hex')) = []")
  case True
  then show ?thesis by (simp add: applyTokenToColor_def)
next
  case False
  then show ?thesis by (simp add: applyTokenToColor_def assms foldl_applyTokenStep Let_def)
qed

lemma itemsToBind_append:
  "itemsToBind (xs @ ys) t = itemsToBind xs t @ itemsToBind ys t"
  by (simp add: itemsToBind_def)

lemma applyTokenToColor_append:
  assumes "getVariableById h vid = Some v"
  shows "applyTokenToColor h store (xs @ ys) hex' vid
     = (addResults (fst (applyTokenToColor h store xs hex' vid))
          (fst (applyTokenToColor h (snd (applyTokenToColor h store xs hex' vid)) ys hex' vid)),
        snd (applyTokenToColor h (snd (applyTokenToColor h store xs hex' vid)) ys hex' vid))"
  by (simp add: applyTokenToColor_resolved [OF assms] itemsToBind_append applyTokenTrace_append
      foldl_countOutcome_append)

lemma countOutcome_once:
  "countOutcome noResult Applied = appliedOnce" "countOutcome noResult Skipped = skippedOnce"
  "countOutcome noResult (Failed reason) = failedOnce reason"
  by (simp_all add: countOutcome_def noResult_def appliedOnce_def skippedOnce_def failedOnce_def)

lemma applyBindingsToItems_single:
  assumes "matchVariableId item = Some vid"
  shows "applyBindingsToItems h store [item]
     = (countOutcome noResult (fst (applyBindingItem h store item vid)),
        snd (applyBindingItem h store item vid))"
  using assms by (simp add: applyBindingsToItems_def applyBindingsStep_def split: prod.splits)

lemma applyTokenToColor_single:
  assumes "getVariableById h vid = Some v" "matchVariableId item = None"
    "currentColor item = RGB r g b" "rgbToHexStr r g b = trim (stripHash hex')"
  shows "applyTokenToColor h store [item] hex' vid
     = (countOutcome noResult (fst (applyTokenItem h store v item)),
        snd (applyTokenItem h store v item))"
proof -
  have "itemsToBind [item] (trim (stripHash hex')) = [item]"
    using assms(2-4) by (simp add: itemsToBind_def)
  then show ?thesis
    by (simp add: applyTokenToColor_resolved [OF assms(1)] split: prod.splits)
qed

lemma reasons_named:
  assumes "list_all2 namedOutcome its ocs" "reason \<in> set (reasonsOf ocs)"
  shows "\<exists>item \<in> set its. startsWith reason (''['' @ nodeName item @ '']'')"
  using assms
proof (induction rule: list_all2_induct)
  case Nil
  then show ?case by (simp add: reasonsOf_def)
next
  case (Cons item its oc ocs)
  show ?case
  proof (cases "reason \<in> set (reasonsOf ocs)")
    case True
    with Cons.IH show ?thesis by auto
  next
    case False
    with Cons.prems have "oc = Failed reason"
      by (cases oc) (simp_all add: reasonsOf_def)
    with Cons.hyps(1) show ?thesis by (simp add: namedOutcome_def)
  qed
qed

text \<open>
  C2 (as amended). \<open>applyBindingsToItems\<close> goes on after a failure: the result for
  a list of items is that for its first part, whatever happened there, added to that
  for the rest, applied to the elements as the first part left them. An item with a
  match fails, with one reason that starts with the name of its element in brackets
  and nothing changed, when its variable does not resolve, when its element does not
  resolve, and when the bind of its unbound solid paint raises, the reason then
  ending with the message raised. \<open>failedReasons\<close> holds one string for each failed
  item, every item with a match is counted once, and every reason starts with the
  name of an element of the items in brackets. The same holds in
  \<open>applyTokenToColor\<close>, for the items without a match that have the chosen colour,
  when the chosen variable resolves. When it does not resolve and there are such
  items, \<open>applyTokenToColor\<close> returns at once with \<open>failedCount\<close> the number of those
  items and a single reason that names no element, and leaves the elements as they
  are.
\<close>

theorem apply_failures_recorded:
  "applyBindingsToItems h store (xs @ ys)
     = (addResults (fst (applyBindingsToItems h store xs))
          (fst (applyBindingsToItems h (snd (applyBindingsToItems h store xs)) ys)),
        snd (applyBindingsToItems h (snd (applyBindingsToItems h store xs)) ys))
   \<and> (matchVariableId item = Some mid \<and> getVariableById h mid = None \<longrightarrow>
        applyBindingsToItems h store [item]
          = (failedOnce (''['' @ nodeName item @ ''] '' @ msgVariableNotFound @ '': '' @ mid), store))
   \<and> (matchVariableId item = Some mid \<and> getVariableById h mid = Some w
        \<and> store (nodeId item) = None \<longrightarrow>
        applyBindingsToItems h store [item]
          = (failedOnce (''['' @ nodeName item @ ''] '' @ msgNodeNotFound @ '': '' @ nodeId item), store))
   \<and> (matchVariableId item = Some mid \<and> getVariableById h mid = Some w
        \<and> store (nodeId item) = Some node \<and> paintsOf node (property item) = Paints ps
        \<and> index item < length ps \<and> ps ! index item = SolidPaint c op None
        \<and> setBoundVariableForPaint h (SolidPaint c op None) w = Inl e \<longrightarrow>
        applyBindingsToItems h store [item]
          = (failedOnce (''['' @ nodeName item @ ''] '' @ propertyName (property item)
                         @ ''['' @ showNat (index item) @ '']: '' @ e), store))
   \<and> failedCount (fst (applyBindingsToItems h store items'))
       = length (failedReasons (fst (applyBindingsToItems h store items')))
   \<and> appliedCount (fst (applyBindingsToItems h store items'))
       + skippedCount (fst (applyBindingsToItems h store items'))
       + failedCount (fst (applyBindingsToItems h store items'))
       = length (filter (\<lambda>i. matchVariableId i \<noteq> None) items')
   \<and> (\<forall>reason \<in> set (failedReasons (fst (applyBindingsToItems h store items'))).
         \<exists>i \<in> set items'. startsWith reason (''['' @ nodeName i @ '']''))
   \<and> (getVariableById h vid = Some v \<longrightarrow>
        applyTokenToColor h store (xs @ ys) hex' vid
          = (addResults (fst (applyTokenToColor h store xs hex' vid))
               (fst (applyTokenToColor h (snd (applyTokenToColor h store xs hex' vid)) ys hex' vid)),
             snd (applyTokenToColor h (snd (applyTokenToColor h store xs hex' vid)) ys hex' vid)))
   \<and> (getVariableById h vid = Some v \<and> matchVariableId item = None
        \<and> currentColor item = RGB r g b \<and> rgbToHexStr r g b = trim (stripHash hex')
        \<and> store (nodeId item) = None \<longrightarrow>
        applyTokenToColor h store [item] hex' vid
          = (failedOnce (''['' @ nodeName item @ ''] '' @ msgNodeNotFound), store))
   \<and> (getVariableById h vid = Some v \<and> matchVariableId item = None
        \<and> currentColor item = RGB r g b \<and> rgbToHexStr r g b = trim (stripHash hex')
        \<and> store (nodeId item) = Some node \<and> paintsOf node (property item) = Paints ps
        \<and> index item < length ps \<and> ps ! index item = SolidPaint c op bv
        \<and> setBoundVariableForPaint h (SolidPaint c op bv) v = Inl e \<longrightarrow>
        applyTokenToColor h store [item] hex' vid
          = (failedOnce (''['' @ nodeName item @ '']: '' @ e), store))
   \<and> (getVariableById h vid = Some v \<longrightarrow>
        failedCount (fst (applyTokenToColor h store lastScanItems hex' vid))
          = length (failedReasons (fst (applyTokenToColor h store lastScanItems hex' vid)))
        \<and> appliedCount (fst (applyTokenToColor h store lastScanItems hex' vid))
            + skippedCount (fst (applyTokenToColor h store lastScanItems hex' vid))
            + failedCount (fst (applyTokenToColor h store lastScanItems hex' vid))
            = length (itemsToBind lastScanItems (trim (stripHash hex')))
        \<and> (\<forall>reason \<in> set (failedReasons (fst (applyTokenToColor h store lastScanItems hex' vid))).
              \<exists>i \<in> set lastScanItems. startsWith reason (''['' @ nodeName i @ '']'')))
   \<and> (getVariableById h vid = None \<and> itemsToBind lastScanItems (trim (stripHash hex')) \<noteq> [] \<longrightarrow>
        applyTokenToColor h store lastScanItems hex' vid
          = (\<lparr>appliedCount = 0, skippedCount = 0,
              failedCount = length (itemsToBind lastScanItems (trim (stripHash hex'))),
              failedReasons = [msgVariableNotFound]\<rparr>, store))"
proof -
  have 1: "applyBindingsToItems h store (xs @ ys)
     = (addResults (fst (applyBindingsToItems h store xs))
          (fst (applyBindingsToItems h (snd (applyBindingsToItems h store xs)) ys)),
        snd (applyBindingsToItems h (snd (applyBindingsToItems h store xs)) ys))"
    by (rule applyBindingsToItems_append)
  have 2: "matchVariableId item = Some mid \<and> getVariableById h mid = None \<longrightarrow>
        applyBindingsToItems h store [item]
          = (failedOnce (''['' @ nodeName item @ ''] '' @ msgVariableNotFound @ '': '' @ mid), store)"
    by (simp add: applyBindingsToItems_single applyBindingItem_def countOutcome_once)
  have 3: "matchVariableId item = Some mid \<and> getVariableById h mid = Some w
        \<and> store (nodeId item) = None \<longrightarrow>
        applyBindingsToItems h store [item]
          = (failedOnce (''['' @ nodeName item @ ''] '' @ msgNodeNotFound @ '': '' @ nodeId item), store)"
    by (simp add: applyBindingsToItems_single applyBindingItem_def countOutcome_once)
  have 4: "matchVariableId item = Some mid \<and> getVariableById h mid = Some w
        \<and> store (nodeId item) = Some node \<and> paintsOf node (property item) = Paints ps
        \<and> index item < length ps \<and> ps ! index item = SolidPaint c op None
        \<and> setBoundVariableForPaint h (SolidPaint c op None) w = Inl e \<longrightarrow>
        applyBindingsToItems h store [item]
          = (failedOnce (''['' @ nodeName item @ ''] '' @ propertyName (property item)
                         @ ''['' @ showNat (index item) @ '']: '' @ e), store)"
    by (simp add: applyBindingsToItems_single applyBindingItem_def countOutcome_once boundVariableAt_def)
  let ?ocs = "fst (applyBindingsTrace h store items')"
  have r: "fst (applyBindingsToItems h store items') = foldl countOutcome noResult ?ocs"
    by (simp add: applyBindingsToItems_trace)
  note n = applyBindingsTrace_named [of items' h store]
  note A = apply_results_of_trace [OF r]
  have fr: "failedReasons (fst (applyBindingsToItems h store items')) = reasonsOf ?ocs"
    using A by (rule conjunct1)
  have 5: "failedCount (fst (applyBindingsToItems h store items'))
       = length (failedReasons (fst (applyBindingsToItems h store items')))"
    using A by (rule conjunct2 [THEN conjunct1])
  have "appliedCount (fst (applyBindingsToItems h store items'))
       + skippedCount (fst (applyBindingsToItems h store items'))
       + failedCount (fst (applyBindingsToItems h store items')) = length ?ocs"
    using A by (rule conjunct2 [THEN conjunct2])
  also have "\<dots> = length (filter (\<lambda>i. matchVariableId i \<noteq> None) items')"
    by (rule list_all2_lengthD [OF n, symmetric])
  finally have 6: "appliedCount (fst (applyBindingsToItems h store items'))
       + skippedCount (fst (applyBindingsToItems h store items'))
       + failedCount (fst (applyBindingsToItems h store items'))
       = length (filter (\<lambda>i. matchVariableId i \<noteq> None) items')" .
  have 7: "\<forall>reason \<in> set (failedReasons (fst (applyBindingsToItems h store items'))).
         \<exists>i \<in> set items'. startsWith reason (''['' @ nodeName i @ '']'')"
  proof
    fix reason
    assume "reason \<in> set (failedReasons (fst (applyBindingsToItems h store items')))"
    then have "reason \<in> set (reasonsOf ?ocs)" by (simp only: fr)
    from reasons_named [OF n this]
    show "\<exists>i \<in> set items'. startsWith reason (''['' @ nodeName i @ '']'')" by auto
  qed
  have 8: "getVariableById h vid = Some v \<longrightarrow>
        applyTokenToColor h store (xs @ ys) hex' vid
          = (addResults (fst (applyTokenToColor h store xs hex' vid))
               (fst (applyTokenToColor h (snd (applyTokenToColor h store xs hex' vid)) ys hex' vid)),
             snd (applyTokenToColor h (snd (applyTokenToColor h store xs hex' vid)) ys hex' vid))"
    by (rule impI) (rule applyTokenToColor_append)
  have 9: "getVariableById h vid = Some v \<and> matchVariableId item = None
        \<and> currentColor item = RGB r g b \<and> rgbToHexStr r g b = trim (stripHash hex')
        \<and> store (nodeId item) = None \<longrightarrow>
        applyTokenToColor h store [item] hex' vid
          = (failedOnce (''['' @ nodeName item @ ''] '' @ msgNodeNotFound), store)"
  proof (intro impI, elim conjE)
    assume a: "getVariableById h vid = Some v" "matchVariableId item = None"
      "currentColor item = RGB r g b" "rgbToHexStr r g b = trim (stripHash hex')"
      and b: "store (nodeId item) = None"
    show "applyTokenToColor h store [item] hex' vid
          = (failedOnce (''['' @ nodeName item @ ''] '' @ msgNodeNotFound), store)"
      unfolding applyTokenToColor_single [OF a]
      by (simp add: applyTokenItem_def b countOutcome_once)
  qed
  have 10: "getVariableById h vid = Some v \<and> matchVariableId item = None
        \<and> currentColor item = RGB r g b \<and> rgbToHexStr r g b = trim (stripHash hex')
        \<and> store (nodeId item) = Some node \<and> paintsOf node (property item) = Paints ps
        \<and> index item < length ps \<and> ps ! index item = SolidPaint c op bv
        \<and> setBoundVariableForPaint h (SolidPaint c op bv) v = Inl e \<longrightarrow>
        applyTokenToColor h store [item] hex' vid
          = (failedOnce (''['' @ nodeName item @ '']: '' @ e), store)"
  proof (intro impI, elim conjE)
    assume a: "getVariableById h vid = Some v" "matchVariableId item = None"
      "currentColor item = RGB r g b" "rgbToHexStr r g b = trim (stripHash hex')"
      and b: "store (nodeId item) = Some node" "paintsOf node (property item) = Paints ps"
        "index item < length ps" "ps ! index item = SolidPaint c op bv"
        "setBoundVariableForPaint h (SolidPaint c op bv) v = Inl e"
    show "applyTokenToColor h store [item] hex' vid
          = (failedOnce (''['' @ nodeName item @ '']: '' @ e), store)"
      unfolding applyTokenToColor_single [OF a]
      using b by (simp add: applyTokenItem_def countOutcome_once)
  qed
  let ?tb = "itemsToBind lastScanItems (trim (stripHash hex'))"
  have 11: "getVariableById h vid = Some v \<longrightarrow>
        failedCount (fst (applyTokenToColor h store lastScanItems hex' vid))
          = length (failedReasons (fst (applyTokenToColor h store lastScanItems hex' vid)))
        \<and> appliedCount (fst (applyTokenToColor h store lastScanItems hex' vid))
            + skippedCount (fst (applyTokenToColor h store lastScanItems hex' vid))
            + failedCount (fst (applyTokenToColor h store lastScanItems hex' vid))
            = length ?tb
        \<and> (\<forall>reason \<in> set (failedReasons (fst (applyTokenToColor h store lastScanItems hex' vid))).
              \<exists>i \<in> set lastScanItems. startsWith reason (''['' @ nodeName i @ '']''))"
  proof
    assume v: "getVariableById h vid = Some v"
    let ?tcs = "fst (applyTokenTrace h store v ?tb)"
    have r2: "fst (applyTokenToColor h store lastScanItems hex' vid) = foldl countOutcome noResult ?tcs"
      by (simp add: applyTokenToColor_resolved [OF v])
    note n2 = applyTokenTrace_named [of ?tb h store v]
    note B = apply_results_of_trace [OF r2]
    have fr2: "failedReasons (fst (applyTokenToColor h store lastScanItems hex' vid)) = reasonsOf ?tcs"
      using B by (rule conjunct1)
    have a: "failedCount (fst (applyTokenToColor h store lastScanItems hex' vid))
          = length (failedReasons (fst (applyTokenToColor h store lastScanItems hex' vid)))"
      using B by (rule conjunct2 [THEN conjunct1])
    have "appliedCount (fst (applyTokenToColor h store lastScanItems hex' vid))
            + skippedCount (fst (applyTokenToColor h store lastScanItems hex' vid))
            + failedCount (fst (applyTokenToColor h store lastScanItems hex' vid))
            = length ?tcs"
      using B by (rule conjunct2 [THEN conjunct2])
    also have "\<dots> = length ?tb" by (rule list_all2_lengthD [OF n2, symmetric])
    finally have b: "appliedCount (fst (applyTokenToColor h store lastScanItems hex' vid))
            + skippedCount (fst (applyTokenToColor h store lastScanItems hex' vid))
            + failedCount (fst (applyTokenToColor h store lastScanItems hex' vid))
            = length ?tb" .
    have c: "\<forall>reason \<in> set (failedReasons (fst (applyTokenToColor h store lastScanItems hex' vid))).
              \<exists>i \<in> set lastScanItems. startsWith reason (''['' @ nodeName i @ '']'')"
    proof
      fix reason
      assume "reason \<in> set (failedReasons (fst (applyTokenToColor h store lastScanItems hex' vid)))"
      then have "reason \<in> set (reasonsOf ?tcs)" by (simp only: fr2)
      from reasons_named [OF n2 this]
      show "\<exists>i \<in> set lastScanItems. startsWith reason (''['' @ nodeName i @ '']'')"
        by (auto simp: itemsToBind_def)
    qed
    from a b c show "failedCount (fst (applyTokenToColor h store lastScanItems hex' vid))
          = length (failedReasons (fst (applyTokenToColor h store lastScanItems hex' vid)))
        \<and> appliedCount (fst (applyTokenToColor h store lastScanItems hex' vid))
            + skippedCount (fst (applyTokenToColor h store lastScanItems hex' vid))
            + failedCount (fst (applyTokenToColor h store lastScanItems hex' vid))
            = length ?tb
        \<and> (\<forall>reason \<in> set (failedReasons (fst (applyTokenToColor h store lastScanItems hex' vid))).
              \<exists>i \<in> set lastScanItems. startsWith reason (''['' @ nodeName i @ '']''))"
      by (intro conjI)
  qed
  have 12: "getVariableById h vid = None \<and> ?tb \<noteq> [] \<longrightarrow>
        applyTokenToColor h store lastScanItems hex' vid
          = (\<lparr>appliedCount = 0, skippedCount = 0, failedCount = length ?tb,
              failedReasons = [msgVariableNotFound]\<rparr>, store)"
    by (simp add: applyTokenToColor_def)
  from 1 2 3 4 5 6 7 8 9 10 11 12 show ?thesis by (intro conjI)
qed

text \<open>
  The re-verification in \<open>applyBindingsToItems\<close>: an item whose slot is missing, not
  solid or bound already is skipped and nothing changes; only an eligible slot is bound.
\<close>

lemma applyBindingItem_reverifies:
  assumes "getVariableById h vid = Some v" "store (nodeId item) = Some node"
  shows "(\<not> slotEligible node (property item) (index item)
            \<longrightarrow> applyBindingItem h store item vid = (Skipped, store))
       \<and> (fst (applyBindingItem h store item vid) = Applied
            \<longrightarrow> slotEligible node (property item) (index item))"
  using assms
  by (auto simp: applyBindingItem_def slotEligible_def boundVariableAt_def
      split: paintsProperty.splits paint.splits sum.splits if_splits)

lemma paintsOf_setPaints:
  "paintsOf (setPaints node p ps) q = (if q = p then Paints ps else paintsOf node q)"
  by (cases node; cases p; cases q) (simp_all add: paintsOf_def)

lemma applyBindingItem_cases:
  assumes "applyBindingItem h store item vid = (oc, store')"
  shows "store' = store \<and> oc \<noteq> Applied
       \<or> (\<exists>v node ps newPaint.
             oc = Applied \<and> getVariableById h vid = Some v \<and> store (nodeId item) = Some node
             \<and> paintsOf node (property item) = Paints ps \<and> index item < length ps
             \<and> boundVariableAt node (property item) (index item) = None
             \<and> setBoundVariableForPaint h (ps ! index item) v = Inr newPaint
             \<and> store' = store(nodeId item \<mapsto> setPaints node (property item) (ps[index item := newPaint])))"
  using assms
  by (auto simp: applyBindingItem_def
      split: option.splits paintsProperty.splits paint.splits sum.splits if_splits)

lemma applyBindingItem_keeps_bound:
  assumes st: "applyBindingItem h store item vid = (oc, store')"
  shows "boundKept store store'"
  unfolding boundKept_def
proof (intro allI impI)
  fix nid p i
  assume b: "slotBound store nid p i"
  from applyBindingItem_cases [OF st] show "slotBound store' nid p i"
  proof
    assume "store' = store \<and> oc \<noteq> Applied"
    with b show ?thesis by simp
  next
    assume "\<exists>v node ps newPaint.
             oc = Applied \<and> getVariableById h vid = Some v \<and> store (nodeId item) = Some node
             \<and> paintsOf node (property item) = Paints ps \<and> index item < length ps
             \<and> boundVariableAt node (property item) (index item) = None
             \<and> setBoundVariableForPaint h (ps ! index item) v = Inr newPaint
             \<and> store' = store(nodeId item \<mapsto> setPaints node (property item) (ps[index item := newPaint]))"
    then obtain v node ps newPaint where
      n: "store (nodeId item) = Some node" and ps: "paintsOf node (property item) = Paints ps"
      and un: "boundVariableAt node (property item) (index item) = None"
      and s': "store' = store(nodeId item \<mapsto> setPaints node (property item) (ps[index item := newPaint]))"
      by blast
    show ?thesis
    proof (cases "nid = nodeId item")
      case False
      with b s' show ?thesis by (simp add: slotBound_def)
    next
      case True
      with b n have bn: "boundVariableAt node p i \<noteq> None" by (simp add: slotBound_def)
      have "boundVariableAt (setPaints node (property item) (ps[index item := newPaint])) p i \<noteq> None"
      proof (cases "p = property item")
        case False
        with bn show ?thesis by (simp add: boundVariableAt_def paintsOf_setPaints)
      next
        case p: True
        with bn un have "i \<noteq> index item" by auto
        with bn p ps show ?thesis
          by (auto simp: boundVariableAt_def paintsOf_setPaints split: if_splits)
      qed
      with True s' show ?thesis by (simp add: slotBound_def)
    qed
  qed
qed

lemma applyBindingItem_Applied_bound:
  assumes ok: "bindsVariable h" and st: "applyBindingItem h store item vid = (Applied, store')"
  shows "slotBound store' (nodeId item) (property item) (index item) \<and> getVariableById h vid \<noteq> None"
proof -
  from applyBindingItem_cases [OF st] obtain v node ps newPaint where
    v: "getVariableById h vid = Some v" and ps: "paintsOf node (property item) = Paints ps"
    and i: "index item < length ps"
    and b: "setBoundVariableForPaint h (ps ! index item) v = Inr newPaint"
    and s': "store' = store(nodeId item \<mapsto> setPaints node (property item) (ps[index item := newPaint]))"
    by blast
  from ok b obtain c op x where "newPaint = SolidPaint c op (Some x)"
    unfolding bindsVariable_def by blast
  with i s' v show ?thesis
    by (simp add: slotBound_def boundVariableAt_def paintsOf_setPaints)
qed

lemma applyBindingItem_bound_Skipped:
  assumes "slotBound store (nodeId item) (property item) (index item)" "getVariableById h vid \<noteq> None"
  shows "applyBindingItem h store item vid = (Skipped, store)"
  using assms
  by (auto simp: applyBindingItem_def slotBound_def boundVariableAt_def
      split: option.splits paintsProperty.splits)

lemma boundKept_refl: "boundKept s s"
  by (simp add: boundKept_def)

lemma boundKept_trans: "boundKept s t \<Longrightarrow> boundKept t u \<Longrightarrow> boundKept s u"
  by (simp add: boundKept_def)

lemma applyBindingsTrace_keeps_bound:
  "applyBindingsTrace h store its = (ocs, store') \<Longrightarrow> boundKept store store'"
proof (induction its arbitrary: store ocs store')
  case Nil
  then show ?case by (simp add: boundKept_refl)
next
  case (Cons item rest)
  show ?case
  proof (cases "matchVariableId item")
    case None
    with Cons show ?thesis by simp
  next
    case (Some vid)
    obtain oc s1 where st: "applyBindingItem h store item vid = (oc, s1)" by fastforce
    obtain ocs1 s2 where tr: "applyBindingsTrace h s1 rest = (ocs1, s2)" by fastforce
    from Cons.prems Some st tr have "store' = s2" by simp
    with applyBindingItem_keeps_bound [OF st] Cons.IH [OF tr] show ?thesis
      by (blast intro: boundKept_trans)
  qed
qed

lemma second_apply_skips:
  assumes ok: "bindsVariable h"
    and r1: "applyBindingsTrace h s its = (ocs1, s1)"
    and k: "boundKept s1 t"
    and r2: "applyBindingsTrace h t its = (ocs2, t2)"
  shows "list_all2 (\<lambda>o1 o2. o1 = Applied \<longrightarrow> o2 = Skipped) ocs1 ocs2"
  using r1 k r2
proof (induction its arbitrary: s t ocs1 ocs2 s1 t2)
  case Nil
  then show ?case by simp
next
  case (Cons item rest)
  show ?case
  proof (cases "matchVariableId item")
    case None
    with Cons show ?thesis by simp
  next
    case (Some vid)
    obtain oc sa where st1: "applyBindingItem h s item vid = (oc, sa)" by fastforce
    obtain os sb where tr1: "applyBindingsTrace h sa rest = (os, sb)" by fastforce
    obtain oc' ta where st2: "applyBindingItem h t item vid = (oc', ta)" by fastforce
    obtain os' tb where tr2: "applyBindingsTrace h ta rest = (os', tb)" by fastforce
    from Cons.prems(1) Some st1 tr1 have e1: "ocs1 = oc # os" "s1 = sb" by simp_all
    from Cons.prems(3) Some st2 tr2 have e2: "ocs2 = oc' # os'" by simp
    have head: "oc = Applied \<longrightarrow> oc' = Skipped"
    proof
      assume a: "oc = Applied"
      with st1 have "applyBindingItem h s item vid = (Applied, sa)" by simp
      from applyBindingItem_Applied_bound [OF ok this]
      have b: "slotBound sa (nodeId item) (property item) (index item)"
        and v: "getVariableById h vid \<noteq> None" by simp_all
      from applyBindingsTrace_keeps_bound [OF tr1] b
      have "slotBound sb (nodeId item) (property item) (index item)"
        unfolding boundKept_def by blast
      with Cons.prems(2) e1 have "slotBound t (nodeId item) (property item) (index item)"
        unfolding boundKept_def by blast
      from applyBindingItem_bound_Skipped [OF this v] st2 show "oc' = Skipped" by simp
    qed
    have "boundKept s1 ta"
      using Cons.prems(2) applyBindingItem_keeps_bound [OF st2] by (rule boundKept_trans)
    with e1 have "boundKept sb ta" by simp
    from Cons.IH [OF tr1 this tr2] head show ?thesis by (simp add: e1 e2)
  qed
qed

lemma applyBindingsToItems_keeps_bound:
  "boundKept store (snd (applyBindingsToItems h store its))"
  unfolding applyBindingsToItems_trace snd_conv
  by (rule applyBindingsTrace_keeps_bound) (rule prod.collapse [symmetric])

lemma applyBindingsToItems_single_unmatched:
  assumes "matchVariableId item = None"
  shows "applyBindingsToItems h store [item] = (noResult, store)"
  using assms by (simp add: applyBindingsToItems_def)

lemma appliedCount_foldl:
  "appliedCount (foldl countOutcome res ocs) = appliedCount res + length (filter (\<lambda>oc. oc = Applied) ocs)"
  by (induction ocs arbitrary: res) (auto simp: countOutcome_def split: outcome.splits)

lemma skippedCount_foldl:
  "skippedCount (foldl countOutcome res ocs) = skippedCount res + length (filter (\<lambda>oc. oc = Skipped) ocs)"
  by (induction ocs arbitrary: res) (auto simp: countOutcome_def split: outcome.splits)

lemma applied_le_skipped:
  assumes "list_all2 (\<lambda>o1 o2. o1 = Applied \<longrightarrow> o2 = Skipped) ocs1 ocs2"
  shows "length (filter (\<lambda>oc. oc = Applied) ocs1) \<le> length (filter (\<lambda>oc. oc = Skipped) ocs2)"
  using assms by (induction rule: list_all2_induct) auto

lemma all_applied_all_skipped:
  assumes "list_all2 (\<lambda>o1 o2. o1 = Applied \<longrightarrow> o2 = Skipped) ocs1 ocs2"
    "length (filter (\<lambda>oc. oc = Applied) ocs1) = length ocs1"
  shows "ocs2 = replicate (length ocs1) Skipped"
  using assms
proof (induction rule: list_all2_induct)
  case Nil
  then show ?case by simp
next
  case (Cons o1 os1 o2 os2)
  have le: "length (filter (\<lambda>oc. oc = Applied) os1) \<le> length os1" by (rule length_filter_le)
  have a: "o1 = Applied"
  proof (rule ccontr)
    assume "o1 \<noteq> Applied"
    with Cons.prems have "length (filter (\<lambda>oc. oc = Applied) os1) = Suc (length os1)" by simp
    with le show False by linarith
  qed
  with Cons.prems have "length (filter (\<lambda>oc. oc = Applied) os1) = length os1" by simp
  with a Cons.hyps Cons.IH show ?case by simp
qed

lemma foldl_countOutcome_skipped:
  "foldl countOutcome res (replicate n Skipped) = res\<lparr>skippedCount := skippedCount res + n\<rparr>"
  by (induction n arbitrary: res) (simp_all add: countOutcome_def)

lemma applyBindingsTrace_not_applied:
  assumes "applyBindingsTrace h store its = (ocs, store')" "Applied \<notin> set ocs"
  shows "store' = store"
  using assms
proof (induction its arbitrary: store ocs store')
  case Nil
  then show ?case by simp
next
  case (Cons item rest)
  show ?case
  proof (cases "matchVariableId item")
    case None
    with Cons show ?thesis by simp
  next
    case (Some vid)
    obtain oc s1 where st: "applyBindingItem h store item vid = (oc, s1)" by fastforce
    obtain ocs1 s2 where tr: "applyBindingsTrace h s1 rest = (ocs1, s2)" by fastforce
    from Cons.prems(1) Some st tr have e: "ocs = oc # ocs1" "store' = s2" by simp_all
    with Cons.prems(2) have "oc \<noteq> Applied" "Applied \<notin> set ocs1" by auto
    with applyBindingItem_cases [OF st] Cons.IH [OF tr] e show ?thesis by auto
  qed
qed

text \<open>
  C4. Let a bind that does not throw return a solid paint carrying the variable.
  Apply the items of a scan with \<open>applyBindingsToItems\<close>, then apply the same items
  again to the elements as the first run left them. An item that the first run
  applied, in its turn after the items before it, is skipped by the second run in its
  turn, and the second run leaves the elements as it found them at that item; the
  second run skips at least as many items as the first applied; and when the first
  run applied every item with a match, the second reports every one of them skipped,
  none applied and none failed, and changes nothing.
\<close>

theorem second_apply_skips_applied:
  assumes "bindsVariable h"
  shows "(fst (applyBindingsToItems h (snd (applyBindingsToItems h store xs)) [item]) = appliedOnce \<longrightarrow>
            applyBindingsToItems h
                (snd (applyBindingsToItems h (snd (applyBindingsToItems h store (xs @ item # ys))) xs)) [item]
              = (skippedOnce,
                 snd (applyBindingsToItems h (snd (applyBindingsToItems h store (xs @ item # ys))) xs)))
       \<and> appliedCount (fst (applyBindingsToItems h store items'))
           \<le> skippedCount (fst (applyBindingsToItems h (snd (applyBindingsToItems h store items')) items'))
       \<and> (appliedCount (fst (applyBindingsToItems h store items'))
             = length (filter (\<lambda>i. matchVariableId i \<noteq> None) items') \<longrightarrow>
            applyBindingsToItems h (snd (applyBindingsToItems h store items')) items'
              = (\<lparr>appliedCount = 0, skippedCount = length (filter (\<lambda>i. matchVariableId i \<noteq> None) items'),
                  failedCount = 0, failedReasons = []\<rparr>,
                 snd (applyBindingsToItems h store items')))"
proof (intro conjI impI)
  let ?s0 = "snd (applyBindingsToItems h store xs)"
  let ?s1 = "snd (applyBindingsToItems h store (xs @ item # ys))"
  let ?t0 = "snd (applyBindingsToItems h ?s1 xs)"
  assume a: "fst (applyBindingsToItems h ?s0 [item]) = appliedOnce"
  have "matchVariableId item \<noteq> None"
  proof
    assume "matchVariableId item = None"
    from applyBindingsToItems_single_unmatched [OF this, of h ?s0] a
    show False by (simp add: noResult_def appliedOnce_def)
  qed
  then obtain vid where m: "matchVariableId item = Some vid" by blast
  obtain oc sa where st: "applyBindingItem h ?s0 item vid = (oc, sa)" by fastforce
  from a have "countOutcome noResult oc = appliedOnce"
    by (simp add: applyBindingsToItems_single [OF m] st)
  then have "oc = Applied"
    by (cases oc) (simp_all add: countOutcome_def noResult_def appliedOnce_def)
  with st have st': "applyBindingItem h ?s0 item vid = (Applied, sa)" by simp
  from applyBindingItem_Applied_bound [OF assms st']
  have b: "slotBound sa (nodeId item) (property item) (index item)"
    and v: "getVariableById h vid \<noteq> None" by simp_all
  have sa: "sa = snd (applyBindingsToItems h ?s0 [item])"
    by (simp add: applyBindingsToItems_single [OF m] st)
  have "xs @ item # ys = xs @ ([item] @ ys)" by simp
  then have "?s1 = snd (applyBindingsToItems h (snd (applyBindingsToItems h ?s0 [item])) ys)"
    by (simp only: applyBindingsToItems_append snd_conv)
  then have "boundKept sa ?s1"
    using applyBindingsToItems_keeps_bound [of sa h ys] by (simp add: sa)
  moreover have "boundKept ?s1 ?t0" by (rule applyBindingsToItems_keeps_bound)
  ultimately have "boundKept sa ?t0" by (rule boundKept_trans)
  with b have "slotBound ?t0 (nodeId item) (property item) (index item)"
    unfolding boundKept_def by blast
  from applyBindingItem_bound_Skipped [OF this v]
  show "applyBindingsToItems h ?t0 [item] = (skippedOnce, ?t0)"
    by (simp add: applyBindingsToItems_single [OF m] countOutcome_once)
next
  let ?o1 = "fst (applyBindingsTrace h store items')"
  let ?s1 = "snd (applyBindingsTrace h store items')"
  let ?o2 = "fst (applyBindingsTrace h ?s1 items')"
  have l: "list_all2 (\<lambda>o1 o2. o1 = Applied \<longrightarrow> o2 = Skipped) ?o1 ?o2"
    by (rule second_apply_skips [OF assms _ boundKept_refl]) (rule prod.collapse [symmetric])+
  from applied_le_skipped [OF l]
  show "appliedCount (fst (applyBindingsToItems h store items'))
           \<le> skippedCount (fst (applyBindingsToItems h (snd (applyBindingsToItems h store items')) items'))"
    by (simp add: applyBindingsToItems_trace appliedCount_foldl skippedCount_foldl noResult_def)
next
  let ?n = "length (filter (\<lambda>i. matchVariableId i \<noteq> None) items')"
  let ?o1 = "fst (applyBindingsTrace h store items')"
  let ?s1 = "snd (applyBindingsTrace h store items')"
  let ?o2 = "fst (applyBindingsTrace h ?s1 items')"
  assume "appliedCount (fst (applyBindingsToItems h store items')) = ?n"
  moreover have len: "length ?o1 = ?n"
    using list_all2_lengthD [OF applyBindingsTrace_named [of items' h store]] by simp
  ultimately have all: "length (filter (\<lambda>oc. oc = Applied) ?o1) = length ?o1"
    by (simp add: applyBindingsToItems_trace appliedCount_foldl noResult_def)
  have l: "list_all2 (\<lambda>o1 o2. o1 = Applied \<longrightarrow> o2 = Skipped) ?o1 ?o2"
    by (rule second_apply_skips [OF assms _ boundKept_refl]) (rule prod.collapse [symmetric])+
  from all_applied_all_skipped [OF l all] len have o2: "?o2 = replicate ?n Skipped" by simp
  then have "Applied \<notin> set ?o2" by simp
  from applyBindingsTrace_not_applied [OF prod.collapse [symmetric] this]
  have s2: "snd (applyBindingsTrace h ?s1 items') = ?s1" .
  show "applyBindingsToItems h (snd (applyBindingsToItems h store items')) items'
              = (\<lparr>appliedCount = 0, skippedCount = ?n, failedCount = 0, failedReasons = []\<rparr>,
                 snd (applyBindingsToItems h store items'))"
    by (simp add: applyBindingsToItems_trace [of h ?s1] applyBindingsToItems_trace [of h store]
        o2 s2 foldl_countOutcome_skipped noResult_def)
qed

section \<open>The apply loops on example data\<close>

lemma exHost_variables:
  "getVariableById exHost ''V:blue'' = Some exBlue"
  "getVariableById exHost ''V:size'' = Some exSize"
  "getVariableById exHost ''V:gone'' = None"
  by (simp_all add: exHost_def exVariables_def)

lemma exStore_nodes:
  "exStore ''1:1'' = Some exRect" "exStore ''1:2'' = Some exBoundRect" "exStore ''9:9'' = None"
  by (simp_all add: exStore_def)

lemma bindsVariable_exHost: "bindsVariable exHost"
  by (auto simp: bindsVariable_def exHost_def exBind_def split: paint.splits if_splits)

lemma exBind_examples:
  "setBoundVariableForPaint exHost (SolidPaint c op bv) exBlue = Inr (SolidPaint c op (Some ''V:blue''))"
  "setBoundVariableForPaint exHost (SolidPaint c op bv) exSize = Inl ''variable is not a color''"
  by (simp_all add: exHost_def exBind_def exBlue_def exSize_def)

lemma exItem_fields:
  "nodeId (exItem nid nname vid) = nid" "nodeName (exItem nid nname vid) = nname"
  "property (exItem nid nname vid) = Fills" "index (exItem nid nname vid) = 0"
  "currentColor (exItem nid nname vid) = RGB 1 0 0" "matchVariableId (exItem nid nname vid) = vid"
  by (simp_all add: exItem_def)

lemma paints_examples:
  "paintsOf exRect Fills = Paints [SolidPaint (RGB 1 0 0) None None]"
  "boundVariableAt exRect Fills 0 = None"
  "paintsOf exBoundRect Fills = Paints [SolidPaint (RGB 1 0 0) None (Some ''V:old'')]"
  "boundVariableAt exBoundRect Fills 0 = Some ''V:old''"
  by (simp_all add: exRect_def exBoundRect_def paintsOf_def boundVariableAt_def)

lemma setPaints_examples:
  "setPaints exRect Fills ps = SceneNode ''1:1'' ''Rect'' (Paints ps) (Paints []) []"
  "setPaints exBoundRect Fills ps = SceneNode ''1:2'' ''Card'' (Paints ps) Absent []"
  by (simp_all add: exRect_def exBoundRect_def)

lemma applyBindingItem_examples:
  "applyBindingItem exHost exStore (exItem ''1:1'' ''Rect'' (Some ''V:gone'')) ''V:gone''
     = (Failed (''[Rect] '' @ msgVariableNotFound @ '': V:gone''), exStore)"
  "applyBindingItem exHost exStore (exItem ''9:9'' ''Ghost'' (Some ''V:blue'')) ''V:blue''
     = (Failed (''[Ghost] '' @ msgNodeNotFound @ '': 9:9''), exStore)"
  "applyBindingItem exHost exStore (exItem ''1:1'' ''Rect'' (Some ''V:size'')) ''V:size''
     = (Failed ''[Rect] fills[0]: variable is not a color'', exStore)"
  "applyBindingItem exHost exStore (exItem ''1:2'' ''Card'' (Some ''V:blue'')) ''V:blue''
     = (Skipped, exStore)"
  "applyBindingItem exHost exStore (exItem ''1:1'' ''Rect'' (Some ''V:blue'')) ''V:blue''
     = (Applied, exStore(''1:1'' \<mapsto> SceneNode ''1:1'' ''Rect''
          (Paints [SolidPaint (RGB 1 0 0) None (Some ''V:blue'')]) (Paints []) []))"
  by (simp_all add: applyBindingItem_def exHost_variables exStore_nodes exItem_fields paints_examples
      exBind_examples propertyName_def showNat.simps setPaints_examples)

lemma rgbToHexStr_red: "rgbToHexStr 1 0 0 = ''ff0000''"
  by (simp add: rgbToHexStr_def to255_def mathRound_def padStart2_def toString16.simps hexDigit_def)

lemma trim_red: "trim (stripHash ''#ff0000'') = ''ff0000''" "trim (stripHash ''ff0000'') = ''ff0000''"
  by (simp_all add: trim_def stripHash_def isSpace_def)

lemma itemsToBind_examples:
  "itemsToBind [exItem n1 m1 None, exItem n2 m2 None] ''ff0000'' = [exItem n1 m1 None, exItem n2 m2 None]"
  "itemsToBind [exItem n1 m1 None] ''ff0000'' = [exItem n1 m1 None]"
  by (simp_all add: itemsToBind_def exItem_fields rgbToHexStr_red)

lemma applyTokenItem_examples:
  "applyTokenItem exHost exStore exSize (exItem ''1:1'' ''Rect'' None)
     = (Failed ''[Rect]: variable is not a color'', exStore)"
  "applyTokenItem exHost exStore exSize (exItem ''9:9'' ''Ghost'' None)
     = (Failed (''[Ghost] '' @ msgNodeNotFound), exStore)"
  "applyTokenItem exHost exStore exBlue (exItem ''1:2'' ''Card'' None)
     = (Applied, exStore(''1:2'' \<mapsto> SceneNode ''1:2'' ''Card''
          (Paints [SolidPaint (RGB 1 0 0) None (Some ''V:blue'')]) Absent []))"
  by (simp_all add: applyTokenItem_def exStore_nodes exItem_fields paints_examples
      exBind_examples setPaints_examples)

theorem apply_failures_recorded_witness:
  "applyBindingsToItems exHost exStore
       [exItem ''1:1'' ''Rect'' (Some ''V:gone''), exItem ''9:9'' ''Ghost'' (Some ''V:blue''),
        exItem ''1:1'' ''Rect'' (Some ''V:size'')]
     = (\<lparr>appliedCount = 0, skippedCount = 0, failedCount = 3,
         failedReasons = [''[Rect] '' @ msgVariableNotFound @ '': V:gone'',
                          ''[Ghost] '' @ msgNodeNotFound @ '': 9:9'',
                          ''[Rect] fills[0]: variable is not a color'']\<rparr>, exStore)
   \<and> applyTokenToColor exHost exStore
       [exItem ''1:1'' ''Rect'' None, exItem ''9:9'' ''Ghost'' None] ''#ff0000'' ''V:size''
     = (\<lparr>appliedCount = 0, skippedCount = 0, failedCount = 2,
         failedReasons = [''[Rect]: variable is not a color'', ''[Ghost] '' @ msgNodeNotFound]\<rparr>, exStore)
   \<and> applyTokenToColor exHost exStore
       [exItem ''1:1'' ''Rect'' None, exItem ''9:9'' ''Ghost'' None] ''#ff0000'' ''V:gone''
     = (\<lparr>appliedCount = 0, skippedCount = 0, failedCount = 2, failedReasons = [msgVariableNotFound]\<rparr>, exStore)"
proof -
  let ?i1 = "exItem ''1:1'' ''Rect'' (Some ''V:gone'')"
  let ?i2 = "exItem ''9:9'' ''Ghost'' (Some ''V:blue'')"
  let ?i3 = "exItem ''1:1'' ''Rect'' (Some ''V:size'')"
  let ?j1 = "exItem ''1:1'' ''Rect'' None"
  let ?j2 = "exItem ''9:9'' ''Ghost'' None"
  let ?red = "SolidPaint (RGB 1 0 0) None None"
  note T1 = apply_failures_recorded [where h = exHost and store = exStore and item = ?i1
      and mid = "''V:gone''" and xs = "[?i1]" and ys = "[?i2, ?i3]"]
  note T2 = apply_failures_recorded [where h = exHost and store = exStore and item = ?i2
      and mid = "''V:blue''" and w = exBlue and xs = "[?i2]" and ys = "[?i3]"]
  note T3 = apply_failures_recorded [where h = exHost and store = exStore and item = ?i3
      and mid = "''V:size''" and w = exSize and node = exRect and ps = "[?red]"
      and c = "RGB 1 0 0" and op = None and e = "''variable is not a color''"]
  note U1 = apply_failures_recorded [where h = exHost and store = exStore and item = ?j1
      and vid = "''V:size''" and v = exSize and hex' = "''#ff0000''" and r = 1 and g = 0 and b = 0
      and node = exRect and ps = "[?red]" and c = "RGB 1 0 0" and op = None and bv = None
      and e = "''variable is not a color''" and xs = "[?j1]" and ys = "[?j2]"]
  note U2 = apply_failures_recorded [where h = exHost and store = exStore and item = ?j2
      and vid = "''V:size''" and v = exSize and hex' = "''#ff0000''" and r = 1 and g = 0 and b = 0]
  note U3 = apply_failures_recorded [where h = exHost and store = exStore
      and vid = "''V:gone''" and hex' = "''#ff0000''" and lastScanItems = "[?j1, ?j2]"]
  have p1: "matchVariableId ?i1 = Some ''V:gone'' \<and> getVariableById exHost ''V:gone'' = None"
    by (simp add: exItem_fields exHost_variables)
  have p2: "matchVariableId ?i2 = Some ''V:blue'' \<and> getVariableById exHost ''V:blue'' = Some exBlue
        \<and> exStore (nodeId ?i2) = None"
    by (simp add: exItem_fields exHost_variables exStore_nodes)
  have p3: "matchVariableId ?i3 = Some ''V:size'' \<and> getVariableById exHost ''V:size'' = Some exSize
        \<and> exStore (nodeId ?i3) = Some exRect \<and> paintsOf exRect (property ?i3) = Paints [?red]
        \<and> index ?i3 < length [?red] \<and> [?red] ! index ?i3 = SolidPaint (RGB 1 0 0) None None
        \<and> setBoundVariableForPaint exHost (SolidPaint (RGB 1 0 0) None None) exSize
            = Inl ''variable is not a color''"
    by (simp add: exItem_fields exHost_variables exStore_nodes paints_examples exBind_examples)
  have q1: "getVariableById exHost ''V:size'' = Some exSize \<and> matchVariableId ?j1 = None
        \<and> currentColor ?j1 = RGB 1 0 0 \<and> rgbToHexStr 1 0 0 = trim (stripHash ''#ff0000'')
        \<and> exStore (nodeId ?j1) = Some exRect \<and> paintsOf exRect (property ?j1) = Paints [?red]
        \<and> index ?j1 < length [?red] \<and> [?red] ! index ?j1 = SolidPaint (RGB 1 0 0) None None
        \<and> setBoundVariableForPaint exHost (SolidPaint (RGB 1 0 0) None None) exSize
            = Inl ''variable is not a color''"
    by (simp add: exItem_fields exHost_variables exStore_nodes paints_examples exBind_examples
        rgbToHexStr_red trim_red)
  have q2: "getVariableById exHost ''V:size'' = Some exSize \<and> matchVariableId ?j2 = None
        \<and> currentColor ?j2 = RGB 1 0 0 \<and> rgbToHexStr 1 0 0 = trim (stripHash ''#ff0000'')
        \<and> exStore (nodeId ?j2) = None"
    by (simp add: exItem_fields exHost_variables exStore_nodes rgbToHexStr_red trim_red)
  have tb: "itemsToBind [?j1, ?j2] (trim (stripHash ''#ff0000'')) = [?j1, ?j2]"
    by (simp only: trim_red itemsToBind_examples)
  have q3: "getVariableById exHost ''V:gone'' = None
        \<and> itemsToBind [?j1, ?j2] (trim (stripHash ''#ff0000'')) \<noteq> []"
    by (simp add: exHost_variables tb)
  note c2 = conjunct2
  note R1 = T1 [THEN c2, THEN conjunct1, THEN mp, OF p1, unfolded exItem_fields]
  note R2 = T2 [THEN c2, THEN c2, THEN conjunct1, THEN mp, OF p2, unfolded exItem_fields]
  note R3 = T3 [THEN c2, THEN c2, THEN c2, THEN conjunct1, THEN mp, OF p3, unfolded exItem_fields]
  have R23: "applyBindingsToItems exHost exStore [?i2, ?i3]
     = (\<lparr>appliedCount = 0, skippedCount = 0, failedCount = 2,
         failedReasons = [''[Ghost] '' @ msgNodeNotFound @ '': 9:9'',
                          ''[Rect] fills[0]: variable is not a color'']\<rparr>, exStore)"
    using T2 [THEN conjunct1]
    by (simp add: R2 R3 addResults_def failedOnce_def propertyName_def showNat.simps)
  have A: "applyBindingsToItems exHost exStore [?i1, ?i2, ?i3]
     = (\<lparr>appliedCount = 0, skippedCount = 0, failedCount = 3,
         failedReasons = [''[Rect] '' @ msgVariableNotFound @ '': V:gone'',
                          ''[Ghost] '' @ msgNodeNotFound @ '': 9:9'',
                          ''[Rect] fills[0]: variable is not a color'']\<rparr>, exStore)"
    using T1 [THEN conjunct1]
    by (simp add: R1 R23 addResults_def failedOnce_def)
  note c7 = c2 [THEN c2, THEN c2, THEN c2, THEN c2, THEN c2, THEN c2]
  note S1 = U1 [THEN c7, THEN c2, THEN c2, THEN conjunct1, THEN mp, OF q1, unfolded exItem_fields]
  note S2 = U2 [THEN c7, THEN c2, THEN conjunct1, THEN mp, OF q2, unfolded exItem_fields]
  have B: "applyTokenToColor exHost exStore [?j1, ?j2] ''#ff0000'' ''V:size''
     = (\<lparr>appliedCount = 0, skippedCount = 0, failedCount = 2,
         failedReasons = [''[Rect]: variable is not a color'', ''[Ghost] '' @ msgNodeNotFound]\<rparr>, exStore)"
    using U1 [THEN c7, THEN conjunct1, THEN mp, OF conjunct1 [OF q1]]
    by (simp add: S1 S2 addResults_def failedOnce_def)
  have C: "applyTokenToColor exHost exStore [?j1, ?j2] ''#ff0000'' ''V:gone''
     = (\<lparr>appliedCount = 0, skippedCount = 0, failedCount = 2, failedReasons = [msgVariableNotFound]\<rparr>, exStore)"
    using U3 [THEN c7, THEN c2, THEN c2, THEN c2, THEN c2, THEN mp, OF q3]
    by (simp only: tb) simp
  from A B C show ?thesis by (intro conjI)
qed

text \<open>
  C2 as stated fails in \<open>applyTokenToColor\<close> when the chosen variable does not
  resolve: two items fail, one reason is returned, and it names no element.
\<close>

theorem apply_failures_counterexample:
  "failedCount (fst (applyTokenToColor exHost exStore
       [exItem ''1:1'' ''Rect'' None, exItem ''1:2'' ''Card'' None] ''ff0000'' ''V:gone'')) = 2
   \<and> failedReasons (fst (applyTokenToColor exHost exStore
       [exItem ''1:1'' ''Rect'' None, exItem ''1:2'' ''Card'' None] ''ff0000'' ''V:gone''))
       = [msgVariableNotFound]
   \<and> \<not> startsWith msgVariableNotFound ''[Rect]''
   \<and> \<not> startsWith msgVariableNotFound ''[Card]''"
proof -
  have "applyTokenToColor exHost exStore
       [exItem ''1:1'' ''Rect'' None, exItem ''1:2'' ''Card'' None] ''ff0000'' ''V:gone''
     = (\<lparr>appliedCount = 0, skippedCount = 0, failedCount = 2, failedReasons = [msgVariableNotFound]\<rparr>, exStore)"
    unfolding applyTokenToColor_def Let_def trim_red itemsToBind_examples
    by (simp add: exHost_variables)
  moreover have "\<not> startsWith msgVariableNotFound ''[Rect]''" "\<not> startsWith msgVariableNotFound ''[Card]''"
    by (simp_all add: startsWith_def msgVariableNotFound_def)
  ultimately show ?thesis by simp
qed

text \<open>
  C3 at a failing input. The fill of the element \<open>Card\<close> carries the variable
  \<open>V:old\<close> when \<open>applyTokenToColor\<close> runs: the item is not skipped, it is
  applied, and the fill is bound to the new variable. \<open>applyBindingsToItems\<close>
  skips the same slot and leaves the element as it is.
\<close>

theorem applyTokenToColor_rebinds_bound_slot:
  "boundVariableAt exBoundRect Fills 0 = Some ''V:old''
   \<and> exStore ''1:2'' = Some exBoundRect
   \<and> applyTokenToColor exHost exStore [exItem ''1:2'' ''Card'' None] ''ff0000'' ''V:blue''
       = (\<lparr>appliedCount = 1, skippedCount = 0, failedCount = 0, failedReasons = []\<rparr>,
          exStore(''1:2'' \<mapsto> SceneNode ''1:2'' ''Card''
            (Paints [SolidPaint (RGB 1 0 0) None (Some ''V:blue'')]) Absent []))
   \<and> applyBindingsToItems exHost exStore [exItem ''1:2'' ''Card'' (Some ''V:blue'')]
       = (\<lparr>appliedCount = 0, skippedCount = 1, failedCount = 0, failedReasons = []\<rparr>, exStore)"
proof -
  have "applyTokenToColor exHost exStore [exItem ''1:2'' ''Card'' None] ''ff0000'' ''V:blue''
       = (\<lparr>appliedCount = 1, skippedCount = 0, failedCount = 0, failedReasons = []\<rparr>,
          exStore(''1:2'' \<mapsto> SceneNode ''1:2'' ''Card''
            (Paints [SolidPaint (RGB 1 0 0) None (Some ''V:blue'')]) Absent []))"
    unfolding applyTokenToColor_def Let_def trim_red itemsToBind_examples
    by (simp add: exHost_variables applyTokenStep_def applyTokenItem_examples countOutcome_def noResult_def)
  moreover have "applyBindingsToItems exHost exStore [exItem ''1:2'' ''Card'' (Some ''V:blue'')]
       = (\<lparr>appliedCount = 0, skippedCount = 1, failedCount = 0, failedReasons = []\<rparr>, exStore)"
    by (simp add: applyBindingsToItems_def exItem_fields applyBindingsStep_def applyBindingItem_examples
        countOutcome_def noResult_def)
  ultimately show ?thesis by (simp add: paints_examples exStore_nodes)
qed

theorem second_apply_skips_applied_witness:
  "applyBindingsToItems exHost exStore [exItem ''1:1'' ''Rect'' (Some ''V:blue'')]
     = (\<lparr>appliedCount = 1, skippedCount = 0, failedCount = 0, failedReasons = []\<rparr>,
        exStore(''1:1'' \<mapsto> SceneNode ''1:1'' ''Rect''
          (Paints [SolidPaint (RGB 1 0 0) None (Some ''V:blue'')]) (Paints []) []))
   \<and> applyBindingsToItems exHost
        (exStore(''1:1'' \<mapsto> SceneNode ''1:1'' ''Rect''
          (Paints [SolidPaint (RGB 1 0 0) None (Some ''V:blue'')]) (Paints []) []))
        [exItem ''1:1'' ''Rect'' (Some ''V:blue'')]
     = (\<lparr>appliedCount = 0, skippedCount = 1, failedCount = 0, failedReasons = []\<rparr>,
        exStore(''1:1'' \<mapsto> SceneNode ''1:1'' ''Rect''
          (Paints [SolidPaint (RGB 1 0 0) None (Some ''V:blue'')]) (Paints []) []))"
proof -
  let ?its = "[exItem ''1:1'' ''Rect'' (Some ''V:blue'')]"
  let ?s1 = "exStore(''1:1'' \<mapsto> SceneNode ''1:1'' ''Rect''
          (Paints [SolidPaint (RGB 1 0 0) None (Some ''V:blue'')]) (Paints []) [])"
  have r1: "applyBindingsToItems exHost exStore ?its
     = (\<lparr>appliedCount = 1, skippedCount = 0, failedCount = 0, failedReasons = []\<rparr>, ?s1)"
    by (simp add: applyBindingsToItems_def exItem_fields applyBindingsStep_def applyBindingItem_examples
        countOutcome_def noResult_def)
  have n: "length (filter (\<lambda>i. matchVariableId i \<noteq> None) ?its) = 1"
    by (simp add: exItem_fields)
  have p: "appliedCount (fst (applyBindingsToItems exHost exStore ?its))
             = length (filter (\<lambda>i. matchVariableId i \<noteq> None) ?its)"
    by (simp only: r1 n) simp
  note T = second_apply_skips_applied [OF bindsVariable_exHost, where items' = ?its and store = exStore,
      THEN conjunct2, THEN conjunct2, THEN mp, OF p, unfolded n]
  have "applyBindingsToItems exHost ?s1 ?its
     = (\<lparr>appliedCount = 0, skippedCount = 1, failedCount = 0, failedReasons = []\<rparr>, ?s1)"
    using T by (simp only: r1 snd_conv)
  with r1 show ?thesis by (intro conjI)
qed

section \<open>Group filters: the exact map and the list\<close>

lemma setEntryIfAbsent_colorVariable:
  "setEntryIfAbsent h mid prefix m vid =
     (case colorVariable h mid vid of
        None \<Rightarrow> m
      | Some cv \<Rightarrow>
          if \<not> matchesPrefix (varName (fst cv)) prefix then m
          else if map_of m (fst (mapEntryOf cv)) = None
               then AList.update (fst (mapEntryOf cv)) (snd (mapEntryOf cv)) m else m)"
proof (cases "getVariableById h vid")
  case None
  then show ?thesis by (simp add: setEntryIfAbsent_def colorVariable_def)
next
  case (Some v)
  show ?thesis
  proof (cases "resolvedType v = COLOR")
    case False
    with Some show ?thesis by (simp add: setEntryIfAbsent_def colorVariable_def)
  next
    case True
    show ?thesis
    proof (cases "map_of (valuesByMode v) mid")
      case None
      with Some True show ?thesis by (simp add: setEntryIfAbsent_def colorVariable_def)
    next
      case (Some val)
      show ?thesis
      proof (cases val)
        case (ColorValue r g b a)
        with \<open>getVariableById h vid = Some v\<close> True Some show ?thesis
          by (simp add: setEntryIfAbsent_def colorVariable_def mapEntryOf_def Let_def)
      next
        case OtherValue
        with \<open>getVariableById h vid = Some v\<close> True Some show ?thesis
          by (simp add: setEntryIfAbsent_def colorVariable_def)
      qed
    qed
  qed
qed








lemma order_take2:
  "(if 2 \<le> length ps then [ps ! 0, ps ! 1] else ps) = take 2 ps"
proof (cases ps)
  case Nil
  then show ?thesis by simp
next
  case (Cons a qs)
  then show ?thesis by (cases qs) simp_all
qed








section \<open>The catalog on example data\<close>

lemma norm_examples:
  "toLowerCase (trim ''Groups'') = ''groups''" "toLowerCase (trim ''Primitive'') = ''primitive''"
  "toLowerCase (trim ''Brand'') = ''brand''" "toLowerCase ''Light'' = ''light''"
  by (simp_all add: toLowerCase_def toLowerChar_def trim_def isSpace_def)

lemma exHost_collections:
  "getLocalVariableCollections exHost = Inr [exPrimitive, exGroups]"
  "getLibraryVariableCollectionsSafe exHost = [exBrand]"
  by (simp_all add: exHost_def getLibraryVariableCollectionsSafe_def)

lemma coll_names:
  "collName exPrimitive = ''Primitive''" "collName exGroups = ''Groups''" "libName exBrand = ''Brand''"
  by (simp_all add: exPrimitive_def exGroups_def exBrand_def)

lemma find_examples:
  "findVariableCollectionByName exHost ''Groups'' = Inr (Some (Local exGroups))"
  "findVariableCollectionByName exHost ''Primitive'' = Inr (Some (Local exPrimitive))"
  "findVariableCollectionByName exHost ''Brand'' = Inr (Some (Library exBrand))"
  unfolding findVariableCollectionByName_def Let_def norm_examples exHost_collections
  by (simp_all add: coll_names norm_examples)

lemma mode_examples:
  "resolveModeId exGroups ''Light'' = Some ''m:light''"
  "resolveModeId exPrimitive ''Light'' = Some ''m:light''"
  unfolding resolveModeId_def norm_examples
  by (simp_all add: exGroups_def exPrimitive_def exLight_def norm_examples)

lemma exHost_more_variables:
  "getVariableById exHost ''V:black'' = Some exBlackBg"
  "getVariableById exHost ''V:color'' = Some exColorBg"
  "getVariableById exHost ''V:gray'' = Some exGray"
  by (simp_all add: exHost_def exVariables_def)

lemma colorVariable_examples:
  "colorVariable exHost ''m:light'' ''V:black'' = Some (exBlackBg, 0, 0, 0, Some 1)"
  "colorVariable exHost ''m:light'' ''V:color'' = Some (exColorBg, 0, 0, 0, None)"
  "colorVariable exHost ''m:light'' ''V:gray'' = Some (exGray, 1 / 2, 1 / 2, 1 / 2, Some 1)"
  "colorVariable exHost ''m:light'' ''V:blue'' = Some (exBlue, 0, 0, 1, Some 1)"
  by (simp_all add: colorVariable_def exHost_more_variables exHost_variables
      exBlackBg_def exColorBg_def exGray_def exBlue_def)


lemma key_examples:
  "rgbOpacityKey 0 0 0 (Some (orOne (Some 1))) = (0, 0, 0, 1)"
  "rgbOpacityKey 0 0 0 (Some (orOne None)) = (0, 0, 0, 1)"
  "rgbOpacityKey (1 / 2) (1 / 2) (1 / 2) (Some (orOne (Some 1))) = (1 / 2, 1 / 2, 1 / 2, 1)"
  "rgbOpacityKey 0 0 1 (Some (orOne (Some 1))) = (0, 0, 1, 1)"
  by (simp_all add: rgbOpacityKey_def roundAlpha_def orOne_def mathRound_def)

lemma matchesPrefix_examples:
  "matchesPrefix (varName exBlackBg) ''Black/''" "\<not> matchesPrefix (varName exBlackBg) ''Color/''"
  "\<not> matchesPrefix (varName exBlackBg) ''Gray/''"
  "matchesPrefix (varName exColorBg) ''Color/''" "\<not> matchesPrefix (varName exColorBg) ''Black/''"
  "\<not> matchesPrefix (varName exColorBg) ''Gray/''"
  "matchesPrefix (varName exGray) ''Gray/''" "\<not> matchesPrefix (varName exGray) ''Color/''"
  "\<not> matchesPrefix (varName exGray) ''Black/''"
  by (simp_all add: matchesPrefix_def startsWith_def trim_def isSpace_def
      exBlackBg_def exColorBg_def exGray_def)

lemma setEntryIfAbsent_examples:
  "setEntryIfAbsent exHost ''m:light'' ''Color/'' [] ''V:black'' = []"
  "setEntryIfAbsent exHost ''m:light'' ''Color/'' [] ''V:color'' = [((0, 0, 0, 1), (exColorBg, varName exColorBg))]"
  "setEntryIfAbsent exHost ''m:light'' p m ''V:gray''
     = (if matchesPrefix (varName exGray) p \<and> map_of m (1 / 2, 1 / 2, 1 / 2, 1) = None
        then AList.update (1 / 2, 1 / 2, 1 / 2, 1) (exGray, varName exGray) m else m)"
  "setEntryIfAbsent exHost ''m:light'' ''Black/'' [((0, 0, 0, 1), e)] ''V:black'' = [((0, 0, 0, 1), e)]"
  "setEntryIfAbsent exHost ''m:light'' ''Black/'' [((0, 0, 0, 1), e)] ''V:color'' = [((0, 0, 0, 1), e)]"
  by (simp_all add: setEntryIfAbsent_colorVariable colorVariable_examples mapEntryOf_def key_examples
      matchesPrefix_examples)

text \<open>
  A list of prefixes passed to \<open>getCollectionColorMap\<close> is cut to its first two: with
  three, the variables under the third are not indexed. No call in the program
  passes a list.
\<close>

lemma explicit_prefixes_first_two:
  "getCollectionColorMap exHost ''Groups'' ''Light''
       \<lparr>useGroupFilters = Some True, groupPrefixes = Some [''Color/'', ''Black/'', ''Gray/'']\<rparr>
     = Inr [((0, 0, 0, 1), (exColorBg, ''Color/bg''))]"
  unfolding getCollectionColorMap_def Let_def find_examples
  by (simp add: mode_examples) (simp add: exGroups_def setEntryIfAbsent_examples matchesPrefix_examples,
      simp add: exColorBg_def)


section \<open>Library collections\<close>

lemma sortBy_Nil: "sortBy cmp [] = []"
  by (simp add: sortBy_def)

lemma slice0_Nil: "slice0 [] e = []"
  by (simp add: slice0_def)

lemma addLibraryName_fst_mono: "set (fst st) \<subseteq> set (fst (addLibraryName st x))"
  by (cases st) (auto simp: addLibraryName_def)

lemma foldl_addLibraryName_mono: "set (fst st) \<subseteq> set (fst (foldl addLibraryName st xs))"
proof (induction xs arbitrary: st)
  case Nil
  then show ?case by simp
next
  case (Cons x xs)
  from addLibraryName_fst_mono Cons.IH [of "addLibraryName st x"] show ?case
    by (simp only: foldl_Cons) blast
qed

lemma foldl_addLibraryName_seen:
  "set (snd (foldl addLibraryName st xs)) = set (snd st) \<union> (\<lambda>n. toLowerCase (trim n)) ` set xs"
proof (induction xs arbitrary: st)
  case Nil
  then show ?case by simp
next
  case (Cons x xs)
  have "set (snd (addLibraryName st x)) = insert (toLowerCase (trim x)) (set (snd st))"
    by (cases st) (auto simp: addLibraryName_def)
  with Cons.IH [of "addLibraryName st x"] show ?case by (simp only: foldl_Cons) auto
qed

lemma addLibraryName_new:
  "toLowerCase (trim x) \<notin> set (snd st) \<Longrightarrow> x \<in> set (fst (addLibraryName st x))"
  by (cases st) (simp add: addLibraryName_def)

lemma library_name_listed:
  assumes found: "findVariableCollectionByName h name = Inr (Some (Library lib))"
  shows "\<exists>names. getAvailableCollectionNames h = Inr names \<and> libName lib \<in> set names"
proof -
  let ?norm = "\<lambda>n. toLowerCase (trim n)"
  let ?nl = "toLowerCase (trim name)"
  from found obtain locals where loc: "getLocalVariableCollections h = Inr locals"
    by (auto simp: findVariableCollectionByName_def Let_def split: if_splits sum.splits)
  from found loc have nolocal: "find (\<lambda>c. ?norm (collName c) = ?nl) locals = None"
    and fl: "find (\<lambda>c. ?norm (libName c) = ?nl) (getLibraryVariableCollectionsSafe h) = Some lib"
    by (auto simp: findVariableCollectionByName_def Let_def split: if_splits option.splits)
  let ?libs = "getLibraryVariableCollectionsSafe h"
  from fl obtain i where i: "i < length ?libs" "?norm (libName (?libs ! i)) = ?nl" "lib = ?libs ! i"
    and before: "\<forall>j < i. ?norm (libName (?libs ! j)) \<noteq> ?nl"
    unfolding find_Some_iff by blast
  let ?names = "map libName ?libs"
  let ?pre = "take i ?names" and ?post = "drop (Suc i) ?names"
  have "i < length ?names" using i by simp
  then have "?names = ?pre @ ?names ! i # ?post" by (rule id_take_nth_drop)
  moreover have "?names ! i = libName lib" using i by simp
  ultimately have split: "?names = ?pre @ libName lib # ?post" by simp
  let ?st0 = "(map collName locals, map ?norm (map collName locals))"
  let ?st1 = "foldl addLibraryName ?st0 ?pre"
  have "?nl \<notin> set (snd ?st0)"
    using nolocal by (auto simp: find_None_iff)
  moreover have "?nl \<notin> ?norm ` set ?pre"
  proof
    assume "?nl \<in> ?norm ` set ?pre"
    then obtain x where x: "x \<in> set ?pre" "?norm x = ?nl" by auto
    then obtain j where j: "j < length ?pre" "?pre ! j = x" by (auto simp: in_set_conv_nth)
    with i have "j < i" "x = libName (?libs ! j)" by simp_all
    with before x show False by auto
  qed
  ultimately have "?nl \<notin> set (snd ?st1)"
    by (simp only: foldl_addLibraryName_seen) simp
  with i have "?norm (libName lib) \<notin> set (snd ?st1)" by simp
  then have "libName lib \<in> set (fst (addLibraryName ?st1 (libName lib)))"
    by (rule addLibraryName_new)
  also have "\<dots> \<subseteq> set (fst (foldl addLibraryName (addLibraryName ?st1 (libName lib)) ?post))"
    by (rule foldl_addLibraryName_mono)
  also have "foldl addLibraryName (addLibraryName ?st1 (libName lib)) ?post
               = foldl addLibraryName ?st0 ?names"
    by (subst split) simp
  finally have "libName lib \<in> set (fst (foldl addLibraryName ?st0 ?names))" .
  then show ?thesis
    by (simp add: getAvailableCollectionNames_def loc Let_def)
qed

text \<open>
  C10 (as amended). When the collection lookup finds the name only among the library
  collections: \<open>getCollectionColorMap\<close> returns the empty map;
  \<open>getCollectionVariableList\<close> returns the list cached under the key of the request
  if there is one, and the empty list otherwise, and leaves the cache as it is;
  \<open>runScan\<close> returns the empty-catalog error result; \<open>getCandidatesForHex\<close>
  answers with no candidates when nothing is cached under the key; and the name of
  the collection found is among the names that \<open>getAvailableCollectionNames\<close> lists.
\<close>

theorem library_collection_contributes_nothing:
  assumes found: "findVariableCollectionByName h collectionName = Inr (Some (Library lib))"
  shows "getCollectionColorMap h collectionName mode options = Inr []
       \<and> getCollectionVariableList h cache collectionName mode filtered groupPrefixFilter
           = (case map_of cache (cacheKey collectionName mode filtered groupPrefixFilter) of
                Some cached \<Rightarrow> (Inr cached, cache)
              | None \<Rightarrow> (Inr [], cache))
       \<and> runScan h doc collectionName mode useGroupFilters'
           = emptyScan (emptyCatalogMessage collectionName useGroupFilters')
       \<and> (map_of cache (cacheKey collectionName mode filtered None) = None
            \<longrightarrow> candidates (fst (getCandidatesForHex lc h cache msgHex collectionName mode filtered)) = [])
       \<and> (\<exists>names. getAvailableCollectionNames h = Inr names \<and> libName lib \<in> set names)"
proof (intro conjI impI)
  show m: "\<And>options. getCollectionColorMap h collectionName mode options = Inr []"
    by (simp add: getCollectionColorMap_def found Let_def)
  show "getCollectionVariableList h cache collectionName mode filtered groupPrefixFilter
           = (case map_of cache (cacheKey collectionName mode filtered groupPrefixFilter) of
                Some cached \<Rightarrow> (Inr cached, cache)
              | None \<Rightarrow> (Inr [], cache))"
    by (simp add: getCollectionVariableList_def found Let_def split: option.splits)
  show "runScan h doc collectionName mode useGroupFilters'
           = emptyScan (emptyCatalogMessage collectionName useGroupFilters')"
    by (simp add: runScan_def runScanBody_def m)
  show "\<exists>names. getAvailableCollectionNames h = Inr names \<and> libName lib \<in> set names"
    by (rule library_name_listed [OF found])
next
  assume c: "map_of cache (cacheKey collectionName mode filtered None) = None"
  have l: "getCollectionVariableList h cache collectionName mode filtered None = (Inr [], cache)"
    by (simp add: getCollectionVariableList_def found Let_def c)
  show "candidates (fst (getCandidatesForHex lc h cache msgHex collectionName mode filtered)) = []"
    by (cases "parseHexToRgb (trim (stripHash msgHex))")
       (simp_all add: getCandidatesForHex_def Let_def l sortBy_Nil slice0_Nil)
qed

section \<open>Library collections on example data\<close>

lemma cacheKey_examples:
  "cacheKey ''Brand'' ''Light'' False None = ''Brand|Light|false|none''"
  "cacheKey ''Primitive'' ''Light'' False None = ''Primitive|Light|false|none''"
  by (simp_all add: cacheKey_def boolString_def)

lemma exHostBefore_find:
  "findVariableCollectionByName exHostBefore ''Brand''
     = Inr (Some (Local (exPrimitive\<lparr>collName := ''Brand''\<rparr>)))"
  unfolding findVariableCollectionByName_def Let_def norm_examples
  by (simp add: exHostBefore_def getLibraryVariableCollectionsSafe_def norm_examples)

lemma exHostBefore_mode:
  "resolveModeId (exPrimitive\<lparr>collName := ''Brand''\<rparr>) ''Light'' = Some ''m:light''"
  unfolding resolveModeId_def norm_examples
  by (simp add: exPrimitive_def exLight_def norm_examples)

lemma pushEntry_blue:
  "getVariableById h ''V:blue'' = Some exBlue \<Longrightarrow>
   pushEntry h ''m:light'' None [] ''V:blue''
     = [\<lparr>variableId = ''V:blue'', variableName = ''blue/500'', entryColor = RGB 0 0 1\<rparr>]"
  by (simp add: pushEntry_def exBlue_def)

lemma exHostBefore_blue: "getVariableById exHostBefore ''V:blue'' = Some exBlue"
  by (simp add: exHostBefore_def exVariables_def)

lemma list_before:
  "getCollectionVariableList exHostBefore [] ''Brand'' ''Light'' False None
     = (Inr [\<lparr>variableId = ''V:blue'', variableName = ''blue/500'', entryColor = RGB 0 0 1\<rparr>],
        [(''Brand|Light|false|none'',
          [\<lparr>variableId = ''V:blue'', variableName = ''blue/500'', entryColor = RGB 0 0 1\<rparr>])])"
  unfolding getCollectionVariableList_def Let_def cacheKey_examples exHostBefore_find
  by (simp add: exHostBefore_mode) (simp add: exPrimitive_def pushEntry_blue [OF exHostBefore_blue])

lemma list_primitive:
  "getCollectionVariableList exHost [] ''Primitive'' ''Light'' False None
     = (Inr [\<lparr>variableId = ''V:blue'', variableName = ''blue/500'', entryColor = RGB 0 0 1\<rparr>],
        [(''Primitive|Light|false|none'',
          [\<lparr>variableId = ''V:blue'', variableName = ''blue/500'', entryColor = RGB 0 0 1\<rparr>])])"
  unfolding getCollectionVariableList_def Let_def cacheKey_examples find_examples
  by (simp add: mode_examples) (simp add: exPrimitive_def pushEntry_blue [OF exHost_variables(1)])

text \<open>
  C10 as stated fails when a list is still cached. A local collection \<open>Brand\<close> is
  listed once, which fills the cache; then only the library collection \<open>Brand\<close> is
  left. No scan has cleared the cache, and the cached list is returned.
\<close>

theorem library_collection_counterexample:
  "findVariableCollectionByName exHost ''Brand'' = Inr (Some (Library exBrand))
   \<and> fst (getCollectionVariableList exHost
            (snd (getCollectionVariableList exHostBefore [] ''Brand'' ''Light'' False None))
            ''Brand'' ''Light'' False None)
       = Inr [\<lparr>variableId = ''V:blue'', variableName = ''blue/500'', entryColor = RGB 0 0 1\<rparr>]"
proof -
  have "fst (getCollectionVariableList exHost
            [(''Brand|Light|false|none'',
              [\<lparr>variableId = ''V:blue'', variableName = ''blue/500'', entryColor = RGB 0 0 1\<rparr>])]
            ''Brand'' ''Light'' False None)
       = Inr [\<lparr>variableId = ''V:blue'', variableName = ''blue/500'', entryColor = RGB 0 0 1\<rparr>]"
    unfolding getCollectionVariableList_def Let_def cacheKey_examples by simp
  then show ?thesis by (simp only: list_before snd_conv find_examples simp_thms)
qed

theorem library_collection_witness:
  "getCollectionColorMap exHost ''Brand'' ''Light'' \<lparr>useGroupFilters = None, groupPrefixes = None\<rparr> = Inr []
   \<and> getCollectionVariableList exHost [] ''Brand'' ''Light'' False None = (Inr [], [])
   \<and> runScan exHost exDocument ''Brand'' ''Light'' None = emptyScan (emptyCatalogMessage ''Brand'' None)
   \<and> candidates (fst (getCandidatesForHex codeUnitCompare exHost [] ''#ff0000'' ''Brand'' ''Light'' False)) = []
   \<and> (\<exists>names. getAvailableCollectionNames exHost = Inr names \<and> libName exBrand \<in> set names)"
proof -
  note T = library_collection_contributes_nothing [OF find_examples(3),
      of "''Light''" "\<lparr>useGroupFilters = None, groupPrefixes = None\<rparr>" "[]" False None
         exDocument None codeUnitCompare "''#ff0000''"]
  then show ?thesis by simp
qed

section \<open>Scanning and candidate queries: errors\<close>

lemma containsString_append:
  "containsString s t \<Longrightarrow> containsString (p @ s) t"
  by (induction p) simp_all

lemma messages_say:
  "containsString msgNoFilteredVariables ''(Color, Black)''"
  "containsString msgNoFilteredVariables ''COLOR''"
  "containsString msgNoCollectionOrVariables ''COLOR''"
  "msgNoFilteredVariables \<noteq> msgNoCollectionOrVariables"
  by (simp_all add: msgNoFilteredVariables_def msgNoCollectionOrVariables_def startsWith_def)

text \<open>
  C9. \<open>runScan\<close> returns a result in every case. If the exact map built for the
  request is empty, the result has no items and an error that starts with the name
  of the collection in quotes; with the group filter on, the error goes on to say
  that no \<open>COLOR\<close> variable matches the filter \<open>(Color, Black)\<close>, and otherwise
  that the collection was not found or has no \<open>COLOR\<close> variable in the mode. If
  reading the catalog throws, or the map is not empty and reading the elements
  throws, the result has no items and its error is the message of what was thrown.
  A result has no error only when the map is not empty and the elements were read,
  and a result with an error has no items, no colours and no count.
\<close>

theorem runScan_returns_error_result:
  "(getCollectionColorMap h collectionName mode
        \<lparr>useGroupFilters = Some (case useGroupFilters' of None \<Rightarrow> False | Some u \<Rightarrow> u),
         groupPrefixes = None\<rparr> = Inr [] \<and> useGroupFilters' = Some True
      \<longrightarrow> runScan h doc collectionName mode useGroupFilters'
            = \<lparr>items = [], matchedColors = [], noMatchColors = [], totalScanned = 0,
               error = Some ([CHR 0x22] @ collectionName @ [CHR 0x22] @ msgNoFilteredVariables)\<rparr>)
   \<and> (getCollectionColorMap h collectionName mode
        \<lparr>useGroupFilters = Some (case useGroupFilters' of None \<Rightarrow> False | Some u \<Rightarrow> u),
         groupPrefixes = None\<rparr> = Inr [] \<and> useGroupFilters' \<noteq> Some True
      \<longrightarrow> runScan h doc collectionName mode useGroupFilters'
            = \<lparr>items = [], matchedColors = [], noMatchColors = [], totalScanned = 0,
               error = Some ([CHR 0x22] @ collectionName @ [CHR 0x22] @ msgNoCollectionOrVariables)\<rparr>)
   \<and> startsWith ([CHR 0x22] @ collectionName @ [CHR 0x22] @ msgNoFilteredVariables)
        ([CHR 0x22] @ collectionName @ [CHR 0x22])
   \<and> startsWith ([CHR 0x22] @ collectionName @ [CHR 0x22] @ msgNoCollectionOrVariables)
        ([CHR 0x22] @ collectionName @ [CHR 0x22])
   \<and> containsString ([CHR 0x22] @ collectionName @ [CHR 0x22] @ msgNoFilteredVariables) ''(Color, Black)''
   \<and> containsString ([CHR 0x22] @ collectionName @ [CHR 0x22] @ msgNoFilteredVariables) ''COLOR''
   \<and> containsString ([CHR 0x22] @ collectionName @ [CHR 0x22] @ msgNoCollectionOrVariables) ''COLOR''
   \<and> [CHR 0x22] @ collectionName @ [CHR 0x22] @ msgNoFilteredVariables
       \<noteq> [CHR 0x22] @ collectionName @ [CHR 0x22] @ msgNoCollectionOrVariables
   \<and> (getCollectionColorMap h collectionName mode
        \<lparr>useGroupFilters = Some (case useGroupFilters' of None \<Rightarrow> False | Some u \<Rightarrow> u),
         groupPrefixes = None\<rparr> = Inl e
      \<longrightarrow> runScan h doc collectionName mode useGroupFilters'
            = \<lparr>items = [], matchedColors = [], noMatchColors = [], totalScanned = 0, error = Some e\<rparr>)
   \<and> (toLowerCase (trim collectionName) \<noteq> [] \<and> getLocalVariableCollections h = Inl e
      \<longrightarrow> runScan h doc collectionName mode useGroupFilters'
            = \<lparr>items = [], matchedColors = [], noMatchColors = [], totalScanned = 0, error = Some e\<rparr>)
   \<and> (getCollectionColorMap h collectionName mode
        \<lparr>useGroupFilters = Some (case useGroupFilters' of None \<Rightarrow> False | Some u \<Rightarrow> u),
         groupPrefixes = None\<rparr> = Inr (entry # m) \<and> selection doc = Inl e
      \<longrightarrow> runScan h doc collectionName mode useGroupFilters'
            = \<lparr>items = [], matchedColors = [], noMatchColors = [], totalScanned = 0, error = Some e\<rparr>)
   \<and> (error (runScan h doc collectionName mode useGroupFilters') = None
      \<longleftrightarrow> (\<exists>entry' m' sel.
             getCollectionColorMap h collectionName mode
               \<lparr>useGroupFilters = Some (case useGroupFilters' of None \<Rightarrow> False | Some u \<Rightarrow> u),
                groupPrefixes = None\<rparr> = Inr (entry' # m')
             \<and> selection doc = Inr sel))
   \<and> (error (runScan h doc collectionName mode useGroupFilters') \<noteq> None
      \<longrightarrow> items (runScan h doc collectionName mode useGroupFilters') = []
          \<and> matchedColors (runScan h doc collectionName mode useGroupFilters') = []
          \<and> noMatchColors (runScan h doc collectionName mode useGroupFilters') = []
          \<and> totalScanned (runScan h doc collectionName mode useGroupFilters') = 0)"
proof -
  let ?opts = "\<lparr>useGroupFilters = Some (case useGroupFilters' of None \<Rightarrow> False | Some u \<Rightarrow> u),
         groupPrefixes = None\<rparr>"
  let ?q = "[CHR 0x22] @ collectionName @ [CHR 0x22]"
  let ?mf = "[CHR 0x22] @ collectionName @ [CHR 0x22] @ msgNoFilteredVariables"
  let ?mn = "[CHR 0x22] @ collectionName @ [CHR 0x22] @ msgNoCollectionOrVariables"
  let ?run = "runScan h doc collectionName mode useGroupFilters'"
  have 1: "getCollectionColorMap h collectionName mode ?opts = Inr [] \<and> useGroupFilters' = Some True
      \<longrightarrow> ?run = \<lparr>items = [], matchedColors = [], noMatchColors = [], totalScanned = 0,
               error = Some ?mf\<rparr>"
  proof (intro impI, elim conjE)
    assume g: "getCollectionColorMap h collectionName mode ?opts = Inr []"
      and u: "useGroupFilters' = Some True"
    from g show "?run = \<lparr>items = [], matchedColors = [], noMatchColors = [], totalScanned = 0,
               error = Some ?mf\<rparr>"
      by (simp add: runScan_def runScanBody_def emptyScan_def emptyCatalogMessage_def u)
  qed
  have 2: "getCollectionColorMap h collectionName mode ?opts = Inr [] \<and> useGroupFilters' \<noteq> Some True
      \<longrightarrow> ?run = \<lparr>items = [], matchedColors = [], noMatchColors = [], totalScanned = 0,
               error = Some ?mn\<rparr>"
    by (simp add: runScan_def runScanBody_def emptyScan_def emptyCatalogMessage_def)
  have 3: "startsWith ?mf ?q"
    and 4: "startsWith ?mn ?q"
    by (simp_all add: startsWith_def)
  have 5: "containsString ?mf ''(Color, Black)''"
    using containsString_append [OF messages_say(1), of ?q] by simp
  have 6: "containsString ?mf ''COLOR''"
    using containsString_append [OF messages_say(2), of ?q] by simp
  have 7: "containsString ?mn ''COLOR''"
    using containsString_append [OF messages_say(3), of ?q] by simp
  have 8: "?mf \<noteq> ?mn"
    using messages_say(4) by simp
  have 9: "getCollectionColorMap h collectionName mode ?opts = Inl e
      \<longrightarrow> ?run = \<lparr>items = [], matchedColors = [], noMatchColors = [], totalScanned = 0, error = Some e\<rparr>"
    by (simp add: runScan_def runScanBody_def emptyScan_def)
  have 10: "toLowerCase (trim collectionName) \<noteq> [] \<and> getLocalVariableCollections h = Inl e
      \<longrightarrow> ?run = \<lparr>items = [], matchedColors = [], noMatchColors = [], totalScanned = 0, error = Some e\<rparr>"
  proof
    assume "toLowerCase (trim collectionName) \<noteq> [] \<and> getLocalVariableCollections h = Inl e"
    then have "findVariableCollectionByName h collectionName = Inl e"
      by (simp add: findVariableCollectionByName_def Let_def)
    then have "getCollectionColorMap h collectionName mode ?opts = Inl e"
      by (simp add: getCollectionColorMap_def Let_def)
    with 9 show "?run = \<lparr>items = [], matchedColors = [], noMatchColors = [], totalScanned = 0,
        error = Some e\<rparr>"
      by (rule mp)
  qed
  have 11: "getCollectionColorMap h collectionName mode ?opts = Inr (entry # m) \<and> selection doc = Inl e
      \<longrightarrow> ?run = \<lparr>items = [], matchedColors = [], noMatchColors = [], totalScanned = 0, error = Some e\<rparr>"
    by (simp add: runScan_def runScanBody_def emptyScan_def)
  have 12: "error ?run = None
      \<longleftrightarrow> (\<exists>entry' m' sel. getCollectionColorMap h collectionName mode ?opts = Inr (entry' # m')
             \<and> selection doc = Inr sel)"
  proof (cases "getCollectionColorMap h collectionName mode ?opts")
    case (Inl x)
    then show ?thesis by (simp add: runScan_def runScanBody_def emptyScan_def)
  next
    case (Inr cm)
    show ?thesis
    proof (cases cm)
      case Nil
      with Inr show ?thesis by (simp add: runScan_def runScanBody_def emptyScan_def)
    next
      case (Cons x xs)
      show ?thesis
      proof (cases "selection doc")
        case (Inl x')
        with Inr Cons show ?thesis by (simp add: runScan_def runScanBody_def emptyScan_def)
      next
        case sel: (Inr sel)
        from Inr Cons have "\<exists>entry' m' sel'. getCollectionColorMap h collectionName mode ?opts = Inr (entry' # m')
             \<and> selection doc = Inr sel'"
          using sel by blast
        moreover from Inr Cons sel have "error ?run = None"
          by (simp add: runScan_def runScanBody_def Let_def)
        ultimately show ?thesis by simp
      qed
    qed
  qed
  have 13: "error ?run \<noteq> None
      \<longrightarrow> items ?run = [] \<and> matchedColors ?run = [] \<and> noMatchColors ?run = [] \<and> totalScanned ?run = 0"
  proof (cases "getCollectionColorMap h collectionName mode ?opts")
    case (Inl x)
    then show ?thesis by (simp add: runScan_def runScanBody_def emptyScan_def)
  next
    case (Inr cm)
    show ?thesis
    proof (cases cm)
      case Nil
      with Inr show ?thesis by (simp add: runScan_def runScanBody_def emptyScan_def)
    next
      case (Cons x xs)
      with Inr show ?thesis
        by (cases "selection doc") (simp_all add: runScan_def runScanBody_def emptyScan_def Let_def)
    qed
  qed
  from 1 2 3 4 5 6 7 8 9 10 11 12 13 show ?thesis by (intro conjI)
qed

lemma setEntry_blue:
  "setEntry exHost ''m:light'' [] ''V:blue'' = [((0, 0, 1, 1), (exBlue, ''blue/500''))]"
  by (simp add: setEntry_def exHost_variables) (simp add: exBlue_def key_examples)

lemma colorMap_primitive:
  "getCollectionColorMap exHost ''Primitive'' ''Light'' \<lparr>useGroupFilters = Some False, groupPrefixes = None\<rparr>
     = Inr [((0, 0, 1, 1), (exBlue, ''blue/500''))]"
  unfolding getCollectionColorMap_def Let_def find_examples
  by (simp add: mode_examples) (simp add: exPrimitive_def setEntry_blue)

lemma norm_missing: "toLowerCase (trim ''Missing'') = ''missing''"
  by (simp add: toLowerCase_def toLowerChar_def trim_def isSpace_def)

lemma colorMap_missing:
  "getCollectionColorMap exHost ''Missing'' ''Light'' \<lparr>useGroupFilters = Some False, groupPrefixes = None\<rparr>
     = Inr []"
  unfolding getCollectionColorMap_def findVariableCollectionByName_def Let_def norm_missing exHost_collections
  by (simp add: coll_names norm_examples)

lemma colorMap_missing_filtered:
  "getCollectionColorMap exHost ''Missing'' ''Light'' \<lparr>useGroupFilters = Some True, groupPrefixes = None\<rparr>
     = Inr []"
  unfolding getCollectionColorMap_def findVariableCollectionByName_def Let_def norm_missing exHost_collections
  by (simp add: coll_names norm_examples)

theorem runScan_returns_error_result_witness:
  "runScan exHost exDocument ''Missing'' ''Light'' (Some True)
     = \<lparr>items = [], matchedColors = [], noMatchColors = [], totalScanned = 0,
        error = Some ([CHR 0x22] @ ''Missing'' @ [CHR 0x22] @ msgNoFilteredVariables)\<rparr>
   \<and> runScan exHost exDocument ''Missing'' ''Light'' None
     = \<lparr>items = [], matchedColors = [], noMatchColors = [], totalScanned = 0,
        error = Some ([CHR 0x22] @ ''Missing'' @ [CHR 0x22] @ msgNoCollectionOrVariables)\<rparr>
   \<and> runScan exHostBroken exDocument ''Primitive'' ''Light'' None
     = \<lparr>items = [], matchedColors = [], noMatchColors = [], totalScanned = 0,
        error = Some ''catalog unavailable''\<rparr>
   \<and> runScan exHost (exDocument\<lparr>selection := Inl ''selection unavailable''\<rparr>) ''Primitive'' ''Light'' None
     = \<lparr>items = [], matchedColors = [], noMatchColors = [], totalScanned = 0,
        error = Some ''selection unavailable''\<rparr>"
proof -
  note c2 = conjunct2
  note c8 = c2 [THEN c2, THEN c2, THEN c2, THEN c2, THEN c2, THEN c2, THEN c2]
  have p0: "getCollectionColorMap exHost ''Missing'' ''Light''
        \<lparr>useGroupFilters = Some (case Some True of None \<Rightarrow> False | Some u \<Rightarrow> u), groupPrefixes = None\<rparr> = Inr []
      \<and> Some True = Some True"
    using colorMap_missing_filtered by simp
  have p1: "getCollectionColorMap exHost ''Missing'' ''Light''
        \<lparr>useGroupFilters = Some (case None of None \<Rightarrow> False | Some u \<Rightarrow> u), groupPrefixes = None\<rparr> = Inr []
      \<and> None \<noteq> Some True"
    using colorMap_missing by simp
  have p2: "toLowerCase (trim ''Primitive'') \<noteq> []
      \<and> getLocalVariableCollections exHostBroken = Inl ''catalog unavailable''"
    by (simp add: norm_examples exHostBroken_def)
  have p3: "getCollectionColorMap exHost ''Primitive'' ''Light''
        \<lparr>useGroupFilters = Some (case None of None \<Rightarrow> False | Some u \<Rightarrow> u), groupPrefixes = None\<rparr>
          = Inr (((0, 0, 1, 1), (exBlue, ''blue/500'')) # [])
      \<and> selection (exDocument\<lparr>selection := Inl ''selection unavailable''\<rparr>) = Inl ''selection unavailable''"
    using colorMap_primitive by simp
  note 0 = runScan_returns_error_result [where h = exHost and collectionName = "''Missing''"
      and mode = "''Light''" and useGroupFilters' = "Some True" and doc = exDocument,
      THEN conjunct1, THEN mp, OF p0]
  note 1 = runScan_returns_error_result [where h = exHost and collectionName = "''Missing''"
      and mode = "''Light''" and useGroupFilters' = None and doc = exDocument,
      THEN c2, THEN conjunct1, THEN mp, OF p1]
  note 2 = runScan_returns_error_result [where h = exHostBroken and collectionName = "''Primitive''"
      and mode = "''Light''" and useGroupFilters' = None and doc = exDocument
      and e = "''catalog unavailable''",
      THEN c8, THEN c2, THEN conjunct1, THEN mp, OF p2]
  note 3 = runScan_returns_error_result [where h = exHost and collectionName = "''Primitive''"
      and mode = "''Light''" and useGroupFilters' = None
      and doc = "exDocument\<lparr>selection := Inl ''selection unavailable''\<rparr>"
      and e = "''selection unavailable''" and entry = "((0, 0, 1, 1), (exBlue, ''blue/500''))" and m = "[]",
      THEN c8, THEN c2, THEN c2, THEN conjunct1, THEN mp, OF p3]
  from 0 1 2 3 show ?thesis by (intro conjI)
qed

lemma parse_garbage:
  "trim (stripHash ''#12345g'') = ''12345g''" "trim (stripHash ''12345g'') = ''12345g''"
  "parseHexToRgb ''12345g'' = Some (RGB (1 / 255) (35 / 255) (69 / 255))"
  by (simp_all add: parseHexToRgb_def trim_def stripHash_def isSpace_def parseInt16_def hexVal_def
      channel_def toInt32_def)

lemma hex_blue: "rgbToHexStr 0 0 1 = ''0000ff''"
  by (simp add: rgbToHexStr_def to255_def mathRound_def padStart2_def toString16.simps hexDigit_def)

text \<open>
  C8 at a failing input. \<open>12345g\<close> has six characters after the \<open>#\<close> is
  stripped, and the last is not a hex digit; \<open>parseInt\<close> reads the five digits
  before it, so \<open>parseHexToRgb\<close> returns a colour and the command answers with
  candidates and no error.
\<close>

theorem getCandidatesForHex_accepts_non_hex:
  "parseHexToRgb ''12345g'' = Some (RGB (1 / 255) (35 / 255) (69 / 255))
   \<and> fst (getCandidatesForHex codeUnitCompare exHost [] ''#12345g'' ''Primitive'' ''Light'' False)
       = \<lparr>resultHex = ''12345g'', candidates = [Candidate ''V:blue'' ''blue/500'' ''0000ff''],
          resultError = None\<rparr>"
proof -
  have "fst (getCandidatesForHex codeUnitCompare exHost [] ''#12345g'' ''Primitive'' ''Light'' False)
       = \<lparr>resultHex = ''12345g'', candidates = [Candidate ''V:blue'' ''blue/500'' ''0000ff''],
          resultError = None\<rparr>"
    unfolding getCandidatesForHex_def Let_def parse_garbage list_primitive
    by (simp add: sortBy_def slice0_def toCandidate_def addDistance_def hex_blue)
  then show ?thesis by (simp only: parse_garbage simp_thms)
qed

text \<open>A string of another length is rejected, and the command then answers with the error.\<close>

lemma parseHexToRgb_wrong_length:
  "length (trim (stripHash hex')) \<noteq> 6 \<Longrightarrow> parseHexToRgb hex' = None"
  by (simp add: parseHexToRgb_def Let_def)

lemma getCandidatesForHex_invalid:
  "parseHexToRgb (trim (stripHash msgHex)) = None \<Longrightarrow>
   getCandidatesForHex lc h cache msgHex msgCollectionName msgMode filtered
     = (\<lparr>resultHex = trim (stripHash msgHex), candidates = [], resultError = Some ''Invalid HEX''\<rparr>, cache)"
  by (simp add: getCandidatesForHex_def Let_def)

end
